theory Spec2Isabelle
  imports Complex_Main "HOL-Library.Word"
begin

section \<open>Vectors\<close>

text \<open>
  \<open>glm::vec3\<close> is three \<open>float\<close> components. The components are kept as real numbers:
  the arithmetic of this development is the exact arithmetic that binary32 approximates,
  so rounding, infinities and NaN are outside the model.
\<close>

record vec3 =
  vx :: real
  vy :: real
  vz :: real

definition V3 :: "real \<Rightarrow> real \<Rightarrow> real \<Rightarrow> vec3" where
  "V3 a b c = \<lparr>vx = a, vy = b, vz = c\<rparr>"

type_synonym GLuint = "32 word"

section \<open>The input string stream\<close>

text \<open>
  \<open>std::istringstream\<close> as \<open>OBJ::loadOBJ\<close> uses it: the characters not yet read and the
  two state bits that decide whether an extraction is attempted at all.
\<close>

record istringstream =
  buf :: string
  eofbit :: bool
  failbit :: bool

definition istringstream_of :: "string \<Rightarrow> istringstream" where
  "istringstream_of str = \<lparr>buf = str, eofbit = False, failbit = False\<rparr>"

definition isspace :: "char \<Rightarrow> bool" where
  "isspace c = (c = CHR '' '' \<or> c = CHR 0x09 \<or> c = CHR 0x0A \<or> c = CHR 0x0B
                \<or> c = CHR 0x0C \<or> c = CHR 0x0D)"

definition isdigit :: "char \<Rightarrow> bool" where
  "isdigit c = (48 \<le> (of_char c :: nat) \<and> (of_char c :: nat) \<le> 57)"

definition notspace :: "char \<Rightarrow> bool" where
  "notspace c = (\<not> isspace c)"

definition good :: "istringstream \<Rightarrow> bool" where
  "good s = (\<not> eofbit s \<and> \<not> failbit s)"

text \<open>
  The sentry of a formatted extraction (\<open>skipws\<close> is set): a stream that is not good gets
  \<open>failbit\<close> and nothing is read; otherwise white space is skipped, and running into the
  end of the string there sets \<open>eofbit\<close> and \<open>failbit\<close>.
\<close>

definition sentry :: "istringstream \<Rightarrow> bool \<times> istringstream" where
  "sentry s =
     (if \<not> good s then (False, s\<lparr>failbit := True\<rparr>)
      else (let b = dropWhile isspace (buf s)
            in if b = [] then (False, s\<lparr>buf := [], eofbit := True, failbit := True\<rparr>)
               else (True, s\<lparr>buf := b\<rparr>)))"

text \<open>
  \<open>is >> str\<close> for a \<open>std::string\<close>: when the sentry fails the string keeps its old
  contents; otherwise it is replaced by the characters up to the next white space, and
  \<open>eofbit\<close> is set when the end of the string stops the read.
\<close>

definition get_string :: "istringstream \<Rightarrow> string \<Rightarrow> string \<times> istringstream" where
  "get_string s old =
     (case sentry s of
        (False, s') \<Rightarrow> (old, s')
      | (True, s') \<Rightarrow>
          (let rest = dropWhile notspace (buf s')
           in (takeWhile notspace (buf s'), s'\<lparr>buf := rest, eofbit := (rest = [])\<rparr>)))"

fun digits_val :: "nat \<Rightarrow> string \<Rightarrow> nat" where
  "digits_val acc [] = acc"
| "digits_val acc (c # cs) = digits_val (10 * acc + (of_char c - 48)) cs"

definition split_sign :: "string \<Rightarrow> bool \<times> string" where
  "split_sign b =
     (case b of
        [] \<Rightarrow> (False, b)
      | c # r \<Rightarrow> (if c = CHR ''-'' then (True, r)
                  else if c = CHR ''+'' then (False, r) else (False, b)))"

text \<open>
  \<open>is >> n\<close> for an \<open>unsigned int\<close>. When the sentry fails the variable is not written.
  Otherwise \<open>num_get\<close> reads an optional sign and decimal digits: no digit stores 0 and
  sets \<open>failbit\<close>, a value that does not fit stores the largest value and sets
  \<open>failbit\<close>, a minus sign negates modulo \<open>2^32\<close>.
\<close>

definition get_uint :: "istringstream \<Rightarrow> GLuint \<Rightarrow> GLuint \<times> istringstream" where
  "get_uint s old =
     (case sentry s of
        (False, s') \<Rightarrow> (old, s')
      | (True, s') \<Rightarrow>
          (case split_sign (buf s') of (neg, b1) \<Rightarrow>
             (let ds = takeWhile isdigit b1;
                  rest = dropWhile isdigit b1;
                  s'' = s'\<lparr>buf := rest, eofbit := (rest = [])\<rparr>;
                  n = digits_val 0 ds
              in if ds = [] then (0, s''\<lparr>failbit := True\<rparr>)
                 else if 2 ^ 32 \<le> n then (- 1, s''\<lparr>failbit := True\<rparr>)
                 else (if neg then - of_nat n else of_nat n, s''))))"

text \<open>
  \<open>is >> f\<close> for a \<open>float\<close>, for plain decimal literals: an optional sign, digits and
  an optional fraction. Exponents, hexadecimal literals and the words for infinity and NaN
  are not read by this model; no statement below rests on them.
\<close>

definition get_float :: "istringstream \<Rightarrow> real \<Rightarrow> real \<times> istringstream" where
  "get_float s old =
     (case sentry s of
        (False, s') \<Rightarrow> (old, s')
      | (True, s') \<Rightarrow>
          (case split_sign (buf s') of (neg, b1) \<Rightarrow>
             (let ip = takeWhile isdigit b1;
                  r1 = dropWhile isdigit b1;
                  dot = (r1 \<noteq> [] \<and> hd r1 = CHR ''.'');
                  fp = (if dot then takeWhile isdigit (tl r1) else []);
                  rest = (if dot then dropWhile isdigit (tl r1) else r1);
                  s'' = s'\<lparr>buf := rest, eofbit := (rest = [])\<rparr>;
                  m = real (digits_val 0 ip) + real (digits_val 0 fp) / 10 ^ length fp
              in if ip = [] \<and> fp = [] then (0, s''\<lparr>failbit := True\<rparr>)
                 else (if neg then - m else m, s''))))"

section \<open>Reading a geometry file\<close>

text \<open>
  The loop of \<open>std::getline\<close> over the file, character by character: \<open>line\<close> holds
  the characters of the current line read so far. A newline ends the line; at the end of
  the file a line with characters is delivered, and a read that gets no character fails
  and ends the loop.
\<close>

fun getlines_from :: "string \<Rightarrow> string \<Rightarrow> string list" where
  "getlines_from line [] = (if line = [] then [] else [line])"
| "getlines_from line (c # cs) =
     (if c = CHR 0x0A then line # getlines_from [] cs else getlines_from (line @ [c]) cs)"

definition getlines :: "string \<Rightarrow> string list" where
  "getlines s = getlines_from [] s"

text \<open>
  The locals of one pass of the \<open>while\<close> body that the source declares without an
  initial value: \<open>vertexIndex\<close>, \<open>textureIndex\<close>, \<open>normalIndex\<close> and the \<open>glm::vec3\<close> of a
  \<open>v\<close> or \<open>vn\<close> line. What they hold before the first write is not fixed by the
  program, so it is an argument of the model, given per line.
\<close>

record uninit =
  u_vertexIndex :: GLuint
  u_textureIndex :: GLuint
  u_normalIndex :: GLuint
  u_vec :: vec3

record buffers =
  temp_vertices :: "vec3 list"
  temp_normals :: "vec3 list"
  vertexIndices :: "GLuint list"
  normalIndices :: "GLuint list"

definition no_buffers :: buffers where
  "no_buffers = \<lparr>temp_vertices = [], temp_normals = [], vertexIndices = [], normalIndices = []\<rparr>"

text \<open>\<open>iss >> v.x >> v.y >> v.z\<close>\<close>

definition get_vec3 :: "istringstream \<Rightarrow> vec3 \<Rightarrow> vec3 \<times> istringstream" where
  "get_vec3 iss v =
     (case get_float iss (vx v) of (a, s1) \<Rightarrow>
      case get_float s1 (vy v) of (b, s2) \<Rightarrow>
      case get_float s2 (vz v) of (c, s3) \<Rightarrow> (V3 a b c, s3))"

record face_locals =
  f_iss :: istringstream
  vertexData :: string
  vertexIndex :: GLuint
  textureIndex :: GLuint
  normalIndex :: GLuint
  f_bufs :: buffers

definition replace_slash :: "string \<Rightarrow> string" where
  "replace_slash str = map (\<lambda>c. if c = CHR ''/'' then CHR '' '' else c) str"

definition has_space :: "string \<Rightarrow> bool" where
  "has_space str = (CHR '' '' \<in> set str)"

text \<open>\<open>vertexData.find(' ', vertexData.find(' ') + 1) != npos\<close>, for a string with a space\<close>

definition has_second_space :: "string \<Rightarrow> bool" where
  "has_second_space str = has_space (drop 1 (dropWhile (\<lambda>c. c \<noteq> CHR '' '') str))"

text \<open>One pass of the \<open>for\<close> loop over the three corners of a face line.\<close>

definition face_corner :: "face_locals \<Rightarrow> face_locals" where
  "face_corner L =
     (case get_string (f_iss L) (vertexData L) of (tok, iss') \<Rightarrow>
      let vd = replace_slash tok;
          vdss = istringstream_of vd in
      case get_uint vdss (vertexIndex L) of (vi, vdss1) \<Rightarrow>
      let L1 = L\<lparr>f_iss := iss', vertexData := vd, vertexIndex := vi\<rparr>;
          L2 = (if has_space vd then
                  (case get_uint vdss1 (textureIndex L1) of (ti, vdss2) \<Rightarrow>
                   if has_second_space vd then
                     (case get_uint vdss2 (normalIndex L1) of (ni, vdss3) \<Rightarrow>
                      L1\<lparr>textureIndex := ti, normalIndex := ni,
                         f_bufs := (f_bufs L1)\<lparr>normalIndices :=
                                      normalIndices (f_bufs L1) @ [ni - 1]\<rparr>\<rparr>)
                   else L1\<lparr>textureIndex := ti\<rparr>)
                else L1)
      in L2\<lparr>f_bufs := (f_bufs L2)\<lparr>vertexIndices :=
                           vertexIndices (f_bufs L2) @ [vertexIndex L2 - 1]\<rparr>\<rparr>)"

text \<open>The body of the \<open>while\<close> loop: one line, classified by its first token.\<close>

definition process_line :: "uninit \<Rightarrow> string \<Rightarrow> buffers \<Rightarrow> buffers" where
  "process_line u line B =
     (case get_string (istringstream_of line) [] of (prefix, iss) \<Rightarrow>
      if prefix = ''v'' then
        B\<lparr>temp_vertices := temp_vertices B @ [fst (get_vec3 iss (u_vec u))]\<rparr>
      else if prefix = ''vn'' then
        B\<lparr>temp_normals := temp_normals B @ [fst (get_vec3 iss (u_vec u))]\<rparr>
      else if prefix = ''f'' then
        f_bufs (face_corner (face_corner (face_corner
          \<lparr>f_iss = iss, vertexData = [], vertexIndex = u_vertexIndex u,
           textureIndex = u_textureIndex u, normalIndex = u_normalIndex u, f_bufs = B\<rparr>)))
      else B)"

fun process_lines :: "(nat \<Rightarrow> uninit) \<Rightarrow> nat \<Rightarrow> string list \<Rightarrow> buffers \<Rightarrow> buffers" where
  "process_lines ind k [] B = B"
| "process_lines ind k (l # ls) B = process_lines ind (Suc k) ls (process_line (ind k) l B)"

section \<open>Mesh objects\<close>

record OBJ =
  vertices :: "vec3 list"
  normals :: "vec3 list"
  indices :: "GLuint list"
  position :: vec3
  rotation :: vec3
  scale :: vec3
  name :: string

text \<open>
  \<open>std::vector::operator[]\<close> past the end is a read the language leaves undefined; it
  is the one fault of the model. \<open>NoReturn\<close> stands for the second loop of \<open>loadOBJ\<close> not
  ending: its counter is an \<open>unsigned int\<close> compared with a \<open>size_t\<close>.
\<close>

datatype fault = OutOfRangeRead | NoReturn

text \<open>
  The second loop of \<open>loadOBJ\<close>, from position \<open>i\<close> on; \<open>vis\<close> is what is left of
  \<open>vertexIndices\<close>.
\<close>

fun flatten :: "buffers \<Rightarrow> nat \<Rightarrow> GLuint list \<Rightarrow> OBJ \<Rightarrow> fault + OBJ" where
  "flatten B i [] ob = Inr ob"
| "flatten B i (v # vis) ob =
     (if length (temp_vertices B) \<le> unat v then Inl OutOfRangeRead
      else flatten B (Suc i) vis
             (ob\<lparr>vertices := vertices ob @ [temp_vertices B ! unat v],
                 normals := normals ob @
                   [if i < length (normalIndices B)
                    then (if unat (normalIndices B ! i) < length (temp_normals B)
                          then temp_normals B ! unat (normalIndices B ! i)
                          else V3 0 1 0)
                    else V3 0 1 0],
                 indices := indices ob @ [of_nat i]\<rparr>))"

text \<open>
  \<open>OBJ::loadOBJ\<close>. The file system is a partial map from paths to contents; a path
  outside its domain is a file that cannot be opened.
\<close>

definition loadOBJ :: "(nat \<Rightarrow> uninit) \<Rightarrow> (string \<rightharpoonup> string) \<Rightarrow> string \<Rightarrow> OBJ \<Rightarrow> fault + OBJ" where
  "loadOBJ ind fs filePath ob =
     (case fs filePath of
        None \<Rightarrow> Inr ob
      | Some text \<Rightarrow>
          (let B = process_lines ind 0 (getlines text) no_buffers
           in if 2 ^ 32 \<le> length (vertexIndices B) then Inl NoReturn
              else flatten B 0 (vertexIndices B) ob))"

text \<open>
  The constructor \<open>OBJ::OBJ\<close>: the member initialisers, then \<open>loadOBJ\<close>. \<open>setupMesh\<close>
  only hands the three vectors to the GPU and changes none of the fields kept here.
\<close>

definition OBJ_new :: "(nat \<Rightarrow> uninit) \<Rightarrow> (string \<rightharpoonup> string) \<Rightarrow> string \<Rightarrow> fault + OBJ" where
  "OBJ_new ind fs objFilePath =
     loadOBJ ind fs objFilePath
       \<lparr>vertices = [], normals = [], indices = [],
        position = V3 0 0 0, rotation = V3 0 0 0, scale = V3 1 1 1,
        name = objFilePath\<rparr>"

section \<open>Matrices and the draw call\<close>

datatype vec4 = Vec4 real real real real

datatype mat4 = Mat4 vec4 vec4 vec4 vec4

fun smul :: "vec4 \<Rightarrow> real \<Rightarrow> vec4" where
  "smul (Vec4 a b c d) k = Vec4 (a * k) (b * k) (c * k) (d * k)"

fun vadd :: "vec4 \<Rightarrow> vec4 \<Rightarrow> vec4" where
  "vadd (Vec4 a b c d) (Vec4 a' b' c' d') = Vec4 (a + a') (b + b') (c + c') (d + d')"

text \<open>\<open>glm::mat4(1.0f)\<close>; a \<open>mat4\<close> is its four columns.\<close>

definition mat4_1 :: mat4 where
  "mat4_1 = Mat4 (Vec4 1 0 0 0) (Vec4 0 1 0 0) (Vec4 0 0 1 0) (Vec4 0 0 0 1)"

text \<open>
  Modelled from the spec: \<open>glm::translate\<close>, \<open>glm::rotate\<close>, \<open>glm::scale\<close> and
  \<open>glm::radians\<close> belong to the GLM library, which is not in the repository. The spec
  names them the accumulating matrix product; they are written here column by column, the
  way GLM's \<open>matrix_transform\<close> computes that product.
\<close>

fun glm_translate :: "mat4 \<Rightarrow> vec3 \<Rightarrow> mat4" where
  "glm_translate (Mat4 m0 m1 m2 m3) v =
     Mat4 m0 m1 m2 (vadd (vadd (vadd (smul m0 (vx v)) (smul m1 (vy v))) (smul m2 (vz v))) m3)"

fun glm_scale :: "mat4 \<Rightarrow> vec3 \<Rightarrow> mat4" where
  "glm_scale (Mat4 m0 m1 m2 m3) v = Mat4 (smul m0 (vx v)) (smul m1 (vy v)) (smul m2 (vz v)) m3"

definition glm_normalize :: "vec3 \<Rightarrow> vec3" where
  "glm_normalize v =
     (let n = sqrt (vx v * vx v + vy v * vy v + vz v * vz v)
      in V3 (vx v / n) (vy v / n) (vz v / n))"

fun glm_rotate :: "mat4 \<Rightarrow> real \<Rightarrow> vec3 \<Rightarrow> mat4" where
  "glm_rotate (Mat4 m0 m1 m2 m3) angle v =
     (let c = cos angle;
          s = sin angle;
          axis = glm_normalize v;
          temp = V3 ((1 - c) * vx axis) ((1 - c) * vy axis) ((1 - c) * vz axis);
          r00 = c + vx temp * vx axis;
          r01 = vx temp * vy axis + s * vz axis;
          r02 = vx temp * vz axis - s * vy axis;
          r10 = vy temp * vx axis - s * vz axis;
          r11 = c + vy temp * vy axis;
          r12 = vy temp * vz axis + s * vx axis;
          r20 = vz temp * vx axis + s * vy axis;
          r21 = vz temp * vy axis - s * vx axis;
          r22 = c + vz temp * vz axis
      in Mat4 (vadd (vadd (smul m0 r00) (smul m1 r01)) (smul m2 r02))
              (vadd (vadd (smul m0 r10) (smul m1 r11)) (smul m2 r12))
              (vadd (vadd (smul m0 r20) (smul m1 r21)) (smul m2 r22))
              m3)"

definition glm_radians :: "real \<Rightarrow> real" where
  "glm_radians degrees = degrees * (pi / 180)"

text \<open>
  The part of the OpenGL state that \<open>OBJ::draw\<close> writes, and the record of what each
  \<open>glDrawElements\<close> was issued with.
\<close>

datatype polygon_mode = GL_LINE | GL_FILL

record draw_call =
  dc_model :: mat4
  dc_selected :: int
  dc_mode :: polygon_mode
  dc_count :: nat

record gl_state =
  uniform_model :: mat4
  uniform_selected :: int
  polygonMode :: polygon_mode
  drawn :: "draw_call list"

definition model_matrix :: "OBJ \<Rightarrow> mat4" where
  "model_matrix ob =
     (let model = mat4_1;
          model = glm_translate model (position ob);
          model = glm_rotate model (glm_radians (vx (rotation ob))) (V3 1 0 0);
          model = glm_rotate model (glm_radians (vy (rotation ob))) (V3 0 1 0);
          model = glm_rotate model (glm_radians (vz (rotation ob))) (V3 0 0 1);
          model = glm_scale model (scale ob)
      in model)"

definition glDrawElements :: "nat \<Rightarrow> gl_state \<Rightarrow> gl_state" where
  "glDrawElements count gl =
     gl\<lparr>drawn := drawn gl @
          [\<lparr>dc_model = uniform_model gl, dc_selected = uniform_selected gl,
            dc_mode = polygonMode gl, dc_count = count\<rparr>]\<rparr>"

text \<open>\<open>OBJ::draw\<close>\<close>

definition draw :: "OBJ \<Rightarrow> bool \<Rightarrow> bool \<Rightarrow> gl_state \<Rightarrow> gl_state" where
  "draw ob selected wire gl =
     (let gl1 = gl\<lparr>uniform_model := model_matrix ob,
                   uniform_selected := (if selected then 1 else 0)\<rparr>;
          gl2 = (if selected \<and> wire then gl1\<lparr>polygonMode := GL_LINE\<rparr>
                 else gl1\<lparr>polygonMode := GL_FILL\<rparr>);
          gl3 = glDrawElements (length (indices ob)) gl2
      in if selected \<and> wire then gl3\<lparr>polygonMode := GL_FILL\<rparr> else gl3)"

section \<open>The globals and the frame\<close>

text \<open>
  \<open>selectedObjectIndex\<close> is an \<open>int\<close> and \<open>objects.size()\<close> a \<open>size_t\<close>: where the two
  meet the \<open>int\<close> is converted to 64 bits without sign, and a result stored back is
  reduced to 32 bits with sign.
\<close>

definition to_size_t :: "int \<Rightarrow> int" where
  "to_size_t i = i mod 2 ^ 64"

definition to_int32 :: "int \<Rightarrow> int" where
  "to_int32 i = (i + 2 ^ 31) mod 2 ^ 32 - 2 ^ 31"

record viewer =
  objects :: "OBJ list"
  selectedObjectIndex :: int
  transformMode :: bool
  transformMode2 :: bool
  wireframeMode :: bool
  shouldClose :: bool

definition rotationSpeed :: real where "rotationSpeed = 50"
definition translationSpeed :: real where "translationSpeed = 2"
definition scaleSpeed :: real where "scaleSpeed = 1"

text \<open>The \<open>for\<close> loop of \<open>main\<close> that draws every object, from position \<open>i\<close> on.\<close>

fun draw_from :: "nat \<Rightarrow> OBJ list \<Rightarrow> int \<Rightarrow> bool \<Rightarrow> gl_state \<Rightarrow> gl_state" where
  "draw_from i [] sel wire gl = gl"
| "draw_from i (ob # obs) sel wire gl =
     draw_from (Suc i) obs sel wire (draw ob (int i = to_size_t sel) wire gl)"

definition render :: "viewer \<Rightarrow> gl_state \<Rightarrow> gl_state" where
  "render s gl = draw_from 0 (objects s) (selectedObjectIndex s) (wireframeMode s) gl"

text \<open>
  The \<open>try\<close> block of \<open>main\<close> and the test that follows it. Nothing in \<open>OBJ::OBJ\<close>
  throws, so the \<open>catch\<close> clause has no branch here.
\<close>

datatype started = Exited int | Running viewer

definition asset :: string where
  "asset = ''../assets/Suzanne.obj''"

definition load_objects :: "(nat \<Rightarrow> nat \<Rightarrow> uninit) \<Rightarrow> (string \<rightharpoonup> string) \<Rightarrow> fault + OBJ list" where
  "load_objects ind fs =
     (case OBJ_new (ind 0) fs asset of
        Inl f \<Rightarrow> Inl f
      | Inr o0 \<Rightarrow>
          (case OBJ_new (ind 1) fs asset of
             Inl f \<Rightarrow> Inl f
           | Inr o1 \<Rightarrow> Inr [o0\<lparr>position := V3 (- 1.5) 0 0\<rparr>, o1\<lparr>position := V3 1.5 0 0\<rparr>]))"

definition startup :: "(nat \<Rightarrow> nat \<Rightarrow> uninit) \<Rightarrow> (string \<rightharpoonup> string) \<Rightarrow> fault + started" where
  "startup ind fs =
     (case load_objects ind fs of
        Inl f \<Rightarrow> Inl f
      | Inr obs \<Rightarrow>
          Inr (if obs = [] then Exited (- 1)
               else Running \<lparr>objects = obs, selectedObjectIndex = 0, transformMode = False,
                              transformMode2 = False, wireframeMode = False,
                              shouldClose = False\<rparr>))"

section \<open>Input\<close>

datatype key =
    GLFW_KEY_ESCAPE | GLFW_KEY_TAB | GLFW_KEY_H
  | GLFW_KEY_1 | GLFW_KEY_2 | GLFW_KEY_3 | GLFW_KEY_4
  | GLFW_KEY_W | GLFW_KEY_S | GLFW_KEY_A | GLFW_KEY_D | GLFW_KEY_Q | GLFW_KEY_E
  | GLFW_KEY_UP | GLFW_KEY_DOWN | GLFW_KEY_LEFT | GLFW_KEY_RIGHT
  | GLFW_KEY_other

datatype action = GLFW_RELEASE | GLFW_PRESS | GLFW_REPEAT

text \<open>\<open>fmod\<close>: the quotient is cut towards zero.\<close>

definition fmod :: "real \<Rightarrow> real \<Rightarrow> real" where
  "fmod a b = a - b * of_int (if 0 \<le> a / b then \<lfloor>a / b\<rfloor> else \<lceil>a / b\<rceil>)"

definition glm_max :: "vec3 \<Rightarrow> vec3 \<Rightarrow> vec3" where
  "glm_max a b = V3 (max (vx a) (vx b)) (max (vy a) (vy b)) (max (vz a) (vz b))"

text \<open>
  The three branches of \<open>processInput\<close> on the selected object; \<open>pressed k\<close> is
  \<open>glfwGetKey(window, k) == GLFW_PRESS\<close>. Each branch is its six tests of the keys,
  which add to one of the vectors of the object, and then the lines that bring the vector
  back into its range.
\<close>

definition scale_keys :: "(key \<Rightarrow> bool) \<Rightarrow> real \<Rightarrow> vec3 \<Rightarrow> vec3" where
  "scale_keys pressed scaleChange v0 =
     (let v = v0;
          v = (if pressed GLFW_KEY_W then v\<lparr>vy := vy v + scaleChange\<rparr> else v);
          v = (if pressed GLFW_KEY_S then v\<lparr>vy := vy v - scaleChange\<rparr> else v);
          v = (if pressed GLFW_KEY_A then v\<lparr>vx := vx v - scaleChange\<rparr> else v);
          v = (if pressed GLFW_KEY_D then v\<lparr>vx := vx v + scaleChange\<rparr> else v);
          v = (if pressed GLFW_KEY_Q then v\<lparr>vz := vz v + scaleChange\<rparr> else v);
          v = (if pressed GLFW_KEY_E then v\<lparr>vz := vz v - scaleChange\<rparr> else v)
      in v)"

definition scale_branch :: "(key \<Rightarrow> bool) \<Rightarrow> real \<Rightarrow> OBJ \<Rightarrow> OBJ" where
  "scale_branch pressed deltaTime selectedObj =
     (let scaleChange = scaleSpeed * deltaTime;
          v = scale_keys pressed scaleChange (scale selectedObj)
      in selectedObj\<lparr>scale := glm_max v (V3 0.1 0.1 0.1)\<rparr>)"

definition rotation_keys :: "(key \<Rightarrow> bool) \<Rightarrow> real \<Rightarrow> vec3 \<Rightarrow> vec3" where
  "rotation_keys pressed rotChange v0 =
     (let v = v0;
          v = (if pressed GLFW_KEY_W then v\<lparr>vx := vx v + rotChange\<rparr> else v);
          v = (if pressed GLFW_KEY_S then v\<lparr>vx := vx v - rotChange\<rparr> else v);
          v = (if pressed GLFW_KEY_A then v\<lparr>vy := vy v + rotChange\<rparr> else v);
          v = (if pressed GLFW_KEY_D then v\<lparr>vy := vy v - rotChange\<rparr> else v);
          v = (if pressed GLFW_KEY_Q then v\<lparr>vz := vz v + rotChange\<rparr> else v);
          v = (if pressed GLFW_KEY_E then v\<lparr>vz := vz v - rotChange\<rparr> else v)
      in v)"

definition rotation_branch :: "(key \<Rightarrow> bool) \<Rightarrow> real \<Rightarrow> OBJ \<Rightarrow> OBJ" where
  "rotation_branch pressed deltaTime selectedObj =
     (let rotChange = rotationSpeed * deltaTime;
          v = rotation_keys pressed rotChange (rotation selectedObj)
      in selectedObj\<lparr>rotation := V3 (fmod (vx v) 360) (fmod (vy v) 360) (fmod (vz v) 360)\<rparr>)"

definition translation_branch :: "(key \<Rightarrow> bool) \<Rightarrow> real \<Rightarrow> OBJ \<Rightarrow> OBJ" where
  "translation_branch pressed deltaTime selectedObj =
     (let moveSpeed = translationSpeed * deltaTime;
          v = position selectedObj;
          v = (if pressed GLFW_KEY_W \<or> pressed GLFW_KEY_UP
               then v\<lparr>vy := vy v + moveSpeed\<rparr> else v);
          v = (if pressed GLFW_KEY_S \<or> pressed GLFW_KEY_DOWN
               then v\<lparr>vy := vy v - moveSpeed\<rparr> else v);
          v = (if pressed GLFW_KEY_A \<or> pressed GLFW_KEY_LEFT
               then v\<lparr>vx := vx v - moveSpeed\<rparr> else v);
          v = (if pressed GLFW_KEY_D \<or> pressed GLFW_KEY_RIGHT
               then v\<lparr>vx := vx v + moveSpeed\<rparr> else v);
          v = (if pressed GLFW_KEY_Q then v\<lparr>vz := vz v - moveSpeed\<rparr> else v);
          v = (if pressed GLFW_KEY_E then v\<lparr>vz := vz v + moveSpeed\<rparr> else v)
      in selectedObj\<lparr>position := v\<rparr>)"

text \<open>
  \<open>processInput\<close>. The entries of \<open>objects\<close> are pointers to objects allocated one by
  one, so no two positions of the list share an object and the list holds the objects
  themselves.
\<close>

definition processInput :: "(key \<Rightarrow> bool) \<Rightarrow> real \<Rightarrow> viewer \<Rightarrow> viewer" where
  "processInput pressed deltaTime s =
     (let s1 = (if pressed GLFW_KEY_ESCAPE then s\<lparr>shouldClose := True\<rparr> else s)
      in if objects s1 = [] \<or> int (length (objects s1)) \<le> to_size_t (selectedObjectIndex s1)
         then s1
         else (let i = nat (to_size_t (selectedObjectIndex s1));
                   selectedObj = objects s1 ! i
               in s1\<lparr>objects := (objects s1)
                      [i := (if transformMode2 s1 then scale_branch pressed deltaTime selectedObj
                             else if transformMode s1
                                  then rotation_branch pressed deltaTime selectedObj
                                  else translation_branch pressed deltaTime selectedObj)]\<rparr>))"

text \<open>\<open>key_callback\<close>; what it prints is left out.\<close>

definition key_callback :: "key \<Rightarrow> action \<Rightarrow> viewer \<Rightarrow> viewer" where
  "key_callback k act s =
     (if act \<noteq> GLFW_PRESS then s
      else (case k of
              GLFW_KEY_TAB \<Rightarrow>
                (if objects s \<noteq> []
                 then s\<lparr>selectedObjectIndex :=
                          to_int32 (to_size_t (to_int32 (selectedObjectIndex s + 1))
                                    mod int (length (objects s)))\<rparr>
                 else s)
            | GLFW_KEY_1 \<Rightarrow> s\<lparr>transformMode := True, transformMode2 := False\<rparr>
            | GLFW_KEY_2 \<Rightarrow> s\<lparr>transformMode := False, transformMode2 := False\<rparr>
            | GLFW_KEY_3 \<Rightarrow> s\<lparr>transformMode := False, transformMode2 := True\<rparr>
            | GLFW_KEY_4 \<Rightarrow> s\<lparr>wireframeMode := \<not> wireframeMode s\<rparr>
            | _ \<Rightarrow> s))"

text \<open>
  What happens between two draws: \<open>processInput\<close> once with the state of the keys and
  the time since the last frame, and any number of key events from \<open>glfwPollEvents\<close>.
\<close>

datatype event = Frame "key \<Rightarrow> bool" real | Key key action

fun step :: "viewer \<Rightarrow> event \<Rightarrow> viewer" where
  "step s (Frame pressed deltaTime) = processInput pressed deltaTime s"
| "step s (Key k act) = key_callback k act s"

definition run :: "event list \<Rightarrow> viewer \<Rightarrow> viewer" where
  "run evs s = foldl step s evs"

section \<open>Inputs used below\<close>

text \<open>A triangle without normals, one line each, every line closed by a newline.\<close>

definition triangle_file :: string where
  "triangle_file =
     ''v 0 0 0'' @ [CHR 0x0A] @ ''v 1 0 0'' @ [CHR 0x0A] @ ''v 0 1 0'' @ [CHR 0x0A]
     @ ''f 1 2 3'' @ [CHR 0x0A]"

text \<open>
  The same triangle with three normals, its face line written with the normal after an
  empty texture field, and written with all three fields.
\<close>

definition normals_file :: string where
  "normals_file =
     ''v 0 0 0'' @ [CHR 0x0A] @ ''v 1 0 0'' @ [CHR 0x0A] @ ''v 0 1 0'' @ [CHR 0x0A]
     @ ''vn 1 0 0'' @ [CHR 0x0A] @ ''vn 0 1 0'' @ [CHR 0x0A] @ ''vn 0 0 1'' @ [CHR 0x0A]
     @ ''f 1//1 2//2 3//3'' @ [CHR 0x0A]"

definition textured_file :: string where
  "textured_file =
     ''v 0 0 0'' @ [CHR 0x0A] @ ''v 1 0 0'' @ [CHR 0x0A] @ ''v 0 1 0'' @ [CHR 0x0A]
     @ ''vn 1 0 0'' @ [CHR 0x0A] @ ''vn 0 1 0'' @ [CHR 0x0A] @ ''vn 0 0 1'' @ [CHR 0x0A]
     @ ''f 1/1/1 2/1/2 3/1/3'' @ [CHR 0x0A]"

text \<open>
  The normal that a normal index \<open>k\<close> selects among the three normals of these files,
  with the bounds test of the second loop of \<open>loadOBJ\<close>.
\<close>

definition stale_normal :: "GLuint \<Rightarrow> vec3" where
  "stale_normal k =
     (if unat k < length [V3 1 0 0, V3 0 1 0, V3 0 0 1]
      then [V3 1 0 0, V3 0 1 0, V3 0 0 1] ! unat k else V3 0 1 0)"

text \<open>
  The number of face lines of a file: the lines whose first token is \<open>f\<close>, which is how
  the loop of \<open>loadOBJ\<close> tells them.
\<close>

definition is_f_line :: "string \<Rightarrow> bool" where
  "is_f_line line = (fst (get_string (istringstream_of line) []) = ''f'')"

definition faceCount :: "string \<Rightarrow> nat" where
  "faceCount text = length (filter is_f_line (getlines text))"

text \<open>Some contents for the locals without an initial value, and a file system without files.\<close>

definition zero_uninit :: "nat \<Rightarrow> uninit" where
  "zero_uninit k = \<lparr>u_vertexIndex = 0, u_textureIndex = 0, u_normalIndex = 0, u_vec = V3 0 0 0\<rparr>"

definition zero_uninits :: "nat \<Rightarrow> nat \<Rightarrow> uninit" where
  "zero_uninits j = zero_uninit"

definition no_files :: "string \<rightharpoonup> string" where
  "no_files = Map.empty"

text \<open>The OpenGL state before the first frame: nothing drawn, polygons filled.\<close>

definition gl_initial :: gl_state where
  "gl_initial = \<lparr>uniform_model = mat4_1, uniform_selected = 0, polygonMode = GL_FILL, drawn = []\<rparr>"

text \<open>A scene of two loaded triangles, an empty scene, and two states of the keys.\<close>

definition sample_object :: OBJ where
  "sample_object =
     \<lparr>vertices = [V3 0 0 0, V3 1 0 0, V3 0 1 0],
      normals = [V3 0 1 0, V3 0 1 0, V3 0 1 0],
      indices = [0, 1, 2],
      position = V3 0 0 0, rotation = V3 0 0 0, scale = V3 1 1 1, name = ''t.obj''\<rparr>"

definition sample_viewer :: viewer where
  "sample_viewer =
     \<lparr>objects = [sample_object\<lparr>position := V3 (- 1.5) 0 0\<rparr>,
                 sample_object\<lparr>position := V3 1.5 0 0\<rparr>],
      selectedObjectIndex = 0, transformMode = False, transformMode2 = False,
      wireframeMode = False, shouldClose = False\<rparr>"

definition empty_viewer :: viewer where
  "empty_viewer =
     \<lparr>objects = [], selectedObjectIndex = 0, transformMode = False, transformMode2 = False,
      wireframeMode = False, shouldClose = False\<rparr>"

text \<open>The scene that \<open>main\<close> starts with when the asset cannot be opened.\<close>

definition unloaded_viewer :: viewer where
  "unloaded_viewer =
     \<lparr>objects =
        [\<lparr>vertices = [], normals = [], indices = [], position = V3 (- 1.5) 0 0,
          rotation = V3 0 0 0, scale = V3 1 1 1, name = asset\<rparr>,
         \<lparr>vertices = [], normals = [], indices = [], position = V3 1.5 0 0,
          rotation = V3 0 0 0, scale = V3 1 1 1, name = asset\<rparr>],
      selectedObjectIndex = 0, transformMode = False, transformMode2 = False,
      wireframeMode = False, shouldClose = False\<rparr>"

definition only_W :: "key \<Rightarrow> bool" where
  "only_W k = (k = GLFW_KEY_W)"

definition only_D :: "key \<Rightarrow> bool" where
  "only_D k = (k = GLFW_KEY_D)"

section \<open>The notions the properties are stated with\<close>

text \<open>A rotation with every component strictly between -360 and 360.\<close>

definition wrapped :: "vec3 \<Rightarrow> bool" where
  "wrapped v = (\<bar>vx v\<bar> < 360 \<and> \<bar>vy v\<bar> < 360 \<and> \<bar>vz v\<bar> < 360)"

text \<open>A scale with no component below 0.1.\<close>

definition floored :: "vec3 \<Rightarrow> bool" where
  "floored v = (0.1 \<le> vx v \<and> 0.1 \<le> vy v \<and> 0.1 \<le> vz v)"

text \<open>
  The matrices as the specification names them, Translate, RotateX, RotateY, RotateZ and
  Scale, by columns and with angles in degrees, and the matrix product.
\<close>

fun mat_vec :: "mat4 \<Rightarrow> vec4 \<Rightarrow> vec4" where
  "mat_vec (Mat4 m0 m1 m2 m3) (Vec4 a b c d) =
     vadd (vadd (vadd (smul m0 a) (smul m1 b)) (smul m2 c)) (smul m3 d)"

fun mat_mul :: "mat4 \<Rightarrow> mat4 \<Rightarrow> mat4" where
  "mat_mul A (Mat4 b0 b1 b2 b3) = Mat4 (mat_vec A b0) (mat_vec A b1) (mat_vec A b2) (mat_vec A b3)"

definition Translate :: "vec3 \<Rightarrow> mat4" where
  "Translate p =
     Mat4 (Vec4 1 0 0 0) (Vec4 0 1 0 0) (Vec4 0 0 1 0) (Vec4 (vx p) (vy p) (vz p) 1)"

definition RotateX :: "real \<Rightarrow> mat4" where
  "RotateX deg =
     (let a = deg * (pi / 180)
      in Mat4 (Vec4 1 0 0 0) (Vec4 0 (cos a) (sin a) 0) (Vec4 0 (- sin a) (cos a) 0)
              (Vec4 0 0 0 1))"

definition RotateY :: "real \<Rightarrow> mat4" where
  "RotateY deg =
     (let a = deg * (pi / 180)
      in Mat4 (Vec4 (cos a) 0 (- sin a) 0) (Vec4 0 1 0 0) (Vec4 (sin a) 0 (cos a) 0)
              (Vec4 0 0 0 1))"

definition RotateZ :: "real \<Rightarrow> mat4" where
  "RotateZ deg =
     (let a = deg * (pi / 180)
      in Mat4 (Vec4 (cos a) (sin a) 0 0) (Vec4 (- sin a) (cos a) 0 0) (Vec4 0 0 1 0)
              (Vec4 0 0 0 1))"

definition Scale :: "vec3 \<Rightarrow> mat4" where
  "Scale s =
     Mat4 (Vec4 (vx s) 0 0 0) (Vec4 0 (vy s) 0 0) (Vec4 0 0 (vz s) 0) (Vec4 0 0 0 1)"

section \<open>Evaluating the reader\<close>

lemmas stream_defs =
  istringstream_of_def isspace_def isdigit_def notspace_def good_def sentry_def
  get_string_def split_sign_def get_uint_def get_float_def

text \<open>\<open>face_corner\<close> on a token without a slash, and on a token with two slashes.\<close>

lemma face_corner_none:
  assumes "get_string (f_iss L) (vertexData L) = (tok, iss')"
    and "get_uint (istringstream_of (replace_slash tok)) (vertexIndex L) = (vi, vdssA)"
    and "\<not> has_space (replace_slash tok)"
  shows "face_corner L =
           L\<lparr>f_iss := iss', vertexData := replace_slash tok, vertexIndex := vi,
             f_bufs := (f_bufs L)\<lparr>vertexIndices := vertexIndices (f_bufs L) @ [vi - 1]\<rparr>\<rparr>"
  using assms by (simp add: face_corner_def Let_def)

lemma face_corner_two:
  assumes "get_string (f_iss L) (vertexData L) = (tok, iss')"
    and "get_uint (istringstream_of (replace_slash tok)) (vertexIndex L) = (vi, vdssA)"
    and "has_space (replace_slash tok)"
    and "has_second_space (replace_slash tok)"
    and "get_uint vdssA (textureIndex L) = (ti, vdssB)"
    and "get_uint vdssB (normalIndex L) = (ni, vdssC)"
  shows "face_corner L =
           L\<lparr>f_iss := iss', vertexData := replace_slash tok, vertexIndex := vi,
             textureIndex := ti, normalIndex := ni,
             f_bufs := (f_bufs L)\<lparr>normalIndices := normalIndices (f_bufs L) @ [ni - 1],
                                  vertexIndices := vertexIndices (f_bufs L) @ [vi - 1]\<rparr>\<rparr>"
  using assms by (simp add: face_corner_def Let_def)

lemma line_v_0_0_0:
  "process_line u ''v 0 0 0'' B = B\<lparr>temp_vertices := temp_vertices B @ [V3 0 0 0]\<rparr>"
  by (simp add: stream_defs process_line_def get_vec3_def Let_def)

lemma line_v_1_0_0:
  "process_line u ''v 1 0 0'' B = B\<lparr>temp_vertices := temp_vertices B @ [V3 1 0 0]\<rparr>"
  by (simp add: stream_defs process_line_def get_vec3_def Let_def)

lemma line_v_0_1_0:
  "process_line u ''v 0 1 0'' B = B\<lparr>temp_vertices := temp_vertices B @ [V3 0 1 0]\<rparr>"
  by (simp add: stream_defs process_line_def get_vec3_def Let_def)

lemma line_f_1_2_3:
  "process_line u ''f 1 2 3'' B = B\<lparr>vertexIndices := vertexIndices B @ [0, 1, 2]\<rparr>"
proof -
  let ?L0 = "\<lparr>f_iss = \<lparr>buf = '' 1 2 3'', eofbit = False, failbit = False\<rparr>, vertexData = [],
              vertexIndex = u_vertexIndex u, textureIndex = u_textureIndex u,
              normalIndex = u_normalIndex u, f_bufs = B\<rparr>"
  let ?L1 = "?L0\<lparr>f_iss := \<lparr>buf = '' 2 3'', eofbit = False, failbit = False\<rparr>,
                 vertexData := ''1'', vertexIndex := 1,
                 f_bufs := B\<lparr>vertexIndices := vertexIndices B @ [0]\<rparr>\<rparr>"
  let ?L2 = "?L0\<lparr>f_iss := \<lparr>buf = '' 3'', eofbit = False, failbit = False\<rparr>,
                 vertexData := ''2'', vertexIndex := 2,
                 f_bufs := B\<lparr>vertexIndices := vertexIndices B @ [0, 1]\<rparr>\<rparr>"
  let ?L3 = "?L0\<lparr>f_iss := \<lparr>buf = [], eofbit = True, failbit = False\<rparr>,
                 vertexData := ''3'', vertexIndex := 3,
                 f_bufs := B\<lparr>vertexIndices := vertexIndices B @ [0, 1, 2]\<rparr>\<rparr>"
  have first_token: "get_string (istringstream_of ''f 1 2 3'') [] = (''f'', f_iss ?L0)"
    by (simp add: stream_defs)
  have c1: "face_corner ?L0 = ?L1"
    by (subst face_corner_none [where tok = "''1''" and vi = 1])
       (simp_all add: stream_defs replace_slash_def has_space_def Let_def)
  have c2: "face_corner ?L1 = ?L2"
    by (subst face_corner_none [where tok = "''2''" and vi = 2])
       (simp_all add: stream_defs replace_slash_def has_space_def Let_def)
  have c3: "face_corner ?L2 = ?L3"
    by (subst face_corner_none [where tok = "''3''" and vi = 3])
       (simp_all add: stream_defs replace_slash_def has_space_def Let_def)
  have "process_line u ''f 1 2 3'' B = f_bufs (face_corner (face_corner (face_corner ?L0)))"
    unfolding process_line_def first_token by simp
  then show ?thesis
    by (simp only: c1 c2 c3) simp
qed

lemma lines_triangle_file:
  "getlines triangle_file = [''v 0 0 0'', ''v 1 0 0'', ''v 0 1 0'', ''f 1 2 3'']"
  by (simp add: getlines_def triangle_file_def)

lemma buffers_triangle_file:
  "process_lines ind 0 (getlines triangle_file) no_buffers =
     \<lparr>temp_vertices = [V3 0 0 0, V3 1 0 0, V3 0 1 0], temp_normals = [],
      vertexIndices = [0, 1, 2], normalIndices = []\<rparr>"
  by (simp add: lines_triangle_file line_v_0_0_0 line_v_1_0_0 line_v_0_1_0 line_f_1_2_3
        no_buffers_def)

section \<open>The triangle without normals\<close>

lemma load_triangle_file:
  "OBJ_new ind [p \<mapsto> triangle_file] p =
     Inr \<lparr>vertices = [V3 0 0 0, V3 1 0 0, V3 0 1 0],
          normals = [V3 0 1 0, V3 0 1 0, V3 0 1 0],
          indices = [0, 1, 2],
          position = V3 0 0 0, rotation = V3 0 0 0, scale = V3 1 1 1, name = p\<rparr>"
  by (simp add: OBJ_new_def loadOBJ_def buffers_triangle_file)

text \<open>
  C4. The file with the lines \<open>v 0 0 0\<close>, \<open>v 1 0 0\<close>, \<open>v 0 1 0\<close> and \<open>f 1 2 3\<close> and no
  \<open>vn\<close> line is loaded as the three vertices (0,0,0), (1,0,0), (0,1,0) in that order,
  three normals (0,1,0) and the draw indices 0, 1, 2, whatever the locals without an
  initial value held.
\<close>

theorem triangle_without_normals:
  "OBJ_new ind [p \<mapsto> triangle_file] p =
     Inr \<lparr>vertices = [V3 0 0 0, V3 1 0 0, V3 0 1 0],
          normals = [V3 0 1 0, V3 0 1 0, V3 0 1 0],
          indices = [0, 1, 2],
          position = V3 0 0 0, rotation = V3 0 0 0, scale = V3 1 1 1, name = p\<rparr>"
  by (rule load_triangle_file)

section \<open>The triangle with normals\<close>

lemma line_vn_1_0_0:
  "process_line u ''vn 1 0 0'' B = B\<lparr>temp_normals := temp_normals B @ [V3 1 0 0]\<rparr>"
  by (simp add: stream_defs process_line_def get_vec3_def Let_def)

lemma line_vn_0_1_0:
  "process_line u ''vn 0 1 0'' B = B\<lparr>temp_normals := temp_normals B @ [V3 0 1 0]\<rparr>"
  by (simp add: stream_defs process_line_def get_vec3_def Let_def)

lemma line_vn_0_0_1:
  "process_line u ''vn 0 0 1'' B = B\<lparr>temp_normals := temp_normals B @ [V3 0 0 1]\<rparr>"
  by (simp add: stream_defs process_line_def get_vec3_def Let_def)

lemmas token_defs =
  stream_defs replace_slash_def has_space_def has_second_space_def Let_def

lemma line_f_double_slash:
  "process_line u ''f 1//1 2//2 3//3'' B =
     B\<lparr>vertexIndices := vertexIndices B @ [0, 1, 2],
       normalIndices := normalIndices B
          @ [u_normalIndex u - 1, u_normalIndex u - 1, u_normalIndex u - 1]\<rparr>"
proof -
  let ?n = "u_normalIndex u"
  let ?L0 = "\<lparr>f_iss = \<lparr>buf = '' 1//1 2//2 3//3'', eofbit = False, failbit = False\<rparr>,
              vertexData = [], vertexIndex = u_vertexIndex u,
              textureIndex = u_textureIndex u, normalIndex = ?n, f_bufs = B\<rparr>"
  let ?L1 = "?L0\<lparr>f_iss := \<lparr>buf = '' 2//2 3//3'', eofbit = False, failbit = False\<rparr>,
                 vertexData := ''1  1'', vertexIndex := 1, textureIndex := 1,
                 f_bufs := B\<lparr>normalIndices := normalIndices B @ [?n - 1],
                             vertexIndices := vertexIndices B @ [0]\<rparr>\<rparr>"
  let ?L2 = "?L0\<lparr>f_iss := \<lparr>buf = '' 3//3'', eofbit = False, failbit = False\<rparr>,
                 vertexData := ''2  2'', vertexIndex := 2, textureIndex := 2,
                 f_bufs := B\<lparr>normalIndices := normalIndices B @ [?n - 1, ?n - 1],
                             vertexIndices := vertexIndices B @ [0, 1]\<rparr>\<rparr>"
  let ?L3 = "?L0\<lparr>f_iss := \<lparr>buf = [], eofbit = True, failbit = False\<rparr>,
                 vertexData := ''3  3'', vertexIndex := 3, textureIndex := 3,
                 f_bufs := B\<lparr>normalIndices := normalIndices B @ [?n - 1, ?n - 1, ?n - 1],
                             vertexIndices := vertexIndices B @ [0, 1, 2]\<rparr>\<rparr>"
  let ?end = "\<lparr>buf = [], eofbit = True, failbit = False\<rparr>"
  let ?failed = "\<lparr>buf = [], eofbit = True, failbit = True\<rparr>"
  have first_token: "get_string (istringstream_of ''f 1//1 2//2 3//3'') [] = (''f'', f_iss ?L0)"
    by (simp add: stream_defs)
  have c1: "face_corner ?L0 = ?L1"
    by (subst face_corner_two [where tok = "''1//1''" and vi = 1 and ti = 1 and ni = ?n
          and vdssA = "\<lparr>buf = ''  1'', eofbit = False, failbit = False\<rparr>"
          and vdssB = ?end and vdssC = ?failed])
       (simp_all add: token_defs)
  have c2: "face_corner ?L1 = ?L2"
    by (subst face_corner_two [where tok = "''2//2''" and vi = 2 and ti = 2 and ni = ?n
          and vdssA = "\<lparr>buf = ''  2'', eofbit = False, failbit = False\<rparr>"
          and vdssB = ?end and vdssC = ?failed])
       (simp_all add: token_defs)
  have c3: "face_corner ?L2 = ?L3"
    by (subst face_corner_two [where tok = "''3//3''" and vi = 3 and ti = 3 and ni = ?n
          and vdssA = "\<lparr>buf = ''  3'', eofbit = False, failbit = False\<rparr>"
          and vdssB = ?end and vdssC = ?failed])
       (simp_all add: token_defs)
  have "process_line u ''f 1//1 2//2 3//3'' B
          = f_bufs (face_corner (face_corner (face_corner ?L0)))"
    unfolding process_line_def first_token by simp
  then show ?thesis
    by (simp only: c1 c2 c3) simp
qed

lemma line_f_three_fields:
  "process_line u ''f 1/1/1 2/1/2 3/1/3'' B =
     B\<lparr>vertexIndices := vertexIndices B @ [0, 1, 2],
       normalIndices := normalIndices B @ [0, 1, 2]\<rparr>"
proof -
  let ?L0 = "\<lparr>f_iss = \<lparr>buf = '' 1/1/1 2/1/2 3/1/3'', eofbit = False, failbit = False\<rparr>,
              vertexData = [], vertexIndex = u_vertexIndex u,
              textureIndex = u_textureIndex u, normalIndex = u_normalIndex u, f_bufs = B\<rparr>"
  let ?L1 = "?L0\<lparr>f_iss := \<lparr>buf = '' 2/1/2 3/1/3'', eofbit = False, failbit = False\<rparr>,
                 vertexData := ''1 1 1'', vertexIndex := 1, textureIndex := 1, normalIndex := 1,
                 f_bufs := B\<lparr>normalIndices := normalIndices B @ [0],
                             vertexIndices := vertexIndices B @ [0]\<rparr>\<rparr>"
  let ?L2 = "?L0\<lparr>f_iss := \<lparr>buf = '' 3/1/3'', eofbit = False, failbit = False\<rparr>,
                 vertexData := ''2 1 2'', vertexIndex := 2, textureIndex := 1, normalIndex := 2,
                 f_bufs := B\<lparr>normalIndices := normalIndices B @ [0, 1],
                             vertexIndices := vertexIndices B @ [0, 1]\<rparr>\<rparr>"
  let ?L3 = "?L0\<lparr>f_iss := \<lparr>buf = [], eofbit = True, failbit = False\<rparr>,
                 vertexData := ''3 1 3'', vertexIndex := 3, textureIndex := 1, normalIndex := 3,
                 f_bufs := B\<lparr>normalIndices := normalIndices B @ [0, 1, 2],
                             vertexIndices := vertexIndices B @ [0, 1, 2]\<rparr>\<rparr>"
  let ?end = "\<lparr>buf = [], eofbit = True, failbit = False\<rparr>"
  have first_token:
    "get_string (istringstream_of ''f 1/1/1 2/1/2 3/1/3'') [] = (''f'', f_iss ?L0)"
    by (simp add: stream_defs)
  have c1: "face_corner ?L0 = ?L1"
    by (subst face_corner_two [where tok = "''1/1/1''" and vi = 1 and ti = 1 and ni = 1
          and vdssA = "\<lparr>buf = '' 1 1'', eofbit = False, failbit = False\<rparr>"
          and vdssB = "\<lparr>buf = '' 1'', eofbit = False, failbit = False\<rparr>" and vdssC = ?end])
       (simp_all add: token_defs)
  have c2: "face_corner ?L1 = ?L2"
    by (subst face_corner_two [where tok = "''2/1/2''" and vi = 2 and ti = 1 and ni = 2
          and vdssA = "\<lparr>buf = '' 1 2'', eofbit = False, failbit = False\<rparr>"
          and vdssB = "\<lparr>buf = '' 2'', eofbit = False, failbit = False\<rparr>" and vdssC = ?end])
       (simp_all add: token_defs)
  have c3: "face_corner ?L2 = ?L3"
    by (subst face_corner_two [where tok = "''3/1/3''" and vi = 3 and ti = 1 and ni = 3
          and vdssA = "\<lparr>buf = '' 1 3'', eofbit = False, failbit = False\<rparr>"
          and vdssB = "\<lparr>buf = '' 3'', eofbit = False, failbit = False\<rparr>" and vdssC = ?end])
       (simp_all add: token_defs)
  have "process_line u ''f 1/1/1 2/1/2 3/1/3'' B
          = f_bufs (face_corner (face_corner (face_corner ?L0)))"
    unfolding process_line_def first_token by simp
  then show ?thesis
    by (simp only: c1 c2 c3) simp
qed

lemma lines_normals_file:
  "getlines normals_file =
     [''v 0 0 0'', ''v 1 0 0'', ''v 0 1 0'', ''vn 1 0 0'', ''vn 0 1 0'', ''vn 0 0 1'',
      ''f 1//1 2//2 3//3'']"
  by (simp add: getlines_def normals_file_def)

lemma lines_textured_file:
  "getlines textured_file =
     [''v 0 0 0'', ''v 1 0 0'', ''v 0 1 0'', ''vn 1 0 0'', ''vn 0 1 0'', ''vn 0 0 1'',
      ''f 1/1/1 2/1/2 3/1/3'']"
  by (simp add: getlines_def textured_file_def)

lemma buffers_normals_file:
  "process_lines ind 0 (getlines normals_file) no_buffers =
     \<lparr>temp_vertices = [V3 0 0 0, V3 1 0 0, V3 0 1 0],
      temp_normals = [V3 1 0 0, V3 0 1 0, V3 0 0 1],
      vertexIndices = [0, 1, 2],
      normalIndices = [u_normalIndex (ind 6) - 1, u_normalIndex (ind 6) - 1,
                       u_normalIndex (ind 6) - 1]\<rparr>"
  by (simp add: lines_normals_file line_v_0_0_0 line_v_1_0_0 line_v_0_1_0
        line_vn_1_0_0 line_vn_0_1_0 line_vn_0_0_1 line_f_double_slash no_buffers_def
        eval_nat_numeral)

lemma buffers_textured_file:
  "process_lines ind 0 (getlines textured_file) no_buffers =
     \<lparr>temp_vertices = [V3 0 0 0, V3 1 0 0, V3 0 1 0],
      temp_normals = [V3 1 0 0, V3 0 1 0, V3 0 0 1],
      vertexIndices = [0, 1, 2], normalIndices = [0, 1, 2]\<rparr>"
  by (simp add: lines_textured_file line_v_0_0_0 line_v_1_0_0 line_v_0_1_0
        line_vn_1_0_0 line_vn_0_1_0 line_vn_0_0_1 line_f_three_fields no_buffers_def)

text \<open>
  With all three fields in every corner of the face line the normals do correspond.
\<close>

lemma textured_normals_correspond:
  "OBJ_new ind [p \<mapsto> textured_file] p =
     Inr \<lparr>vertices = [V3 0 0 0, V3 1 0 0, V3 0 1 0],
          normals = [V3 1 0 0, V3 0 1 0, V3 0 0 1],
          indices = [0, 1, 2],
          position = V3 0 0 0, rotation = V3 0 0 0, scale = V3 1 1 1, name = p\<rparr>"
  by (simp add: OBJ_new_def loadOBJ_def buffers_textured_file)

text \<open>
  C1. For the file with three \<open>v\<close> lines, the three \<open>vn\<close> lines \<open>vn 1 0 0\<close>,
  \<open>vn 0 1 0\<close>, \<open>vn 0 0 1\<close> and the face line \<open>f 1//1 2//2 3//3\<close>, normal \<open>i\<close> of the file
  should appear at position \<open>i\<close> of the loaded normals. What is loaded instead: in each
  corner the \<open>1\<close> after the two slashes is read as the texture index and \<open>normalIndex\<close> is
  never written, so all three normals are the one that the stale \<open>normalIndex\<close> selects,
  and they are never the three normals of the file.
\<close>

theorem double_slash_normals:
  "OBJ_new ind [p \<mapsto> normals_file] p =
     Inr \<lparr>vertices = [V3 0 0 0, V3 1 0 0, V3 0 1 0],
          normals = [stale_normal (u_normalIndex (ind 6) - 1),
                     stale_normal (u_normalIndex (ind 6) - 1),
                     stale_normal (u_normalIndex (ind 6) - 1)],
          indices = [0, 1, 2],
          position = V3 0 0 0, rotation = V3 0 0 0, scale = V3 1 1 1, name = p\<rparr>
   \<and> [stale_normal (u_normalIndex (ind 6) - 1),
      stale_normal (u_normalIndex (ind 6) - 1),
      stale_normal (u_normalIndex (ind 6) - 1)] \<noteq> [V3 1 0 0, V3 0 1 0, V3 0 0 1]"
proof
  show "OBJ_new ind [p \<mapsto> normals_file] p =
     Inr \<lparr>vertices = [V3 0 0 0, V3 1 0 0, V3 0 1 0],
          normals = [stale_normal (u_normalIndex (ind 6) - 1),
                     stale_normal (u_normalIndex (ind 6) - 1),
                     stale_normal (u_normalIndex (ind 6) - 1)],
          indices = [0, 1, 2],
          position = V3 0 0 0, rotation = V3 0 0 0, scale = V3 1 1 1, name = p\<rparr>"
    by (simp add: OBJ_new_def loadOBJ_def buffers_normals_file stale_normal_def)
  have "V3 1 0 0 \<noteq> V3 0 1 0"
    by (simp add: V3_def)
  then show "[stale_normal (u_normalIndex (ind 6) - 1),
      stale_normal (u_normalIndex (ind 6) - 1),
      stale_normal (u_normalIndex (ind 6) - 1)] \<noteq> [V3 1 0 0, V3 0 1 0, V3 0 0 1]"
    by auto
qed

section \<open>Lengths of the loaded arrays\<close>

text \<open>Every face line adds three entries to \<open>vertexIndices\<close>, whatever its tokens are.\<close>

lemma face_corner_pushes_one:
  "length (vertexIndices (f_bufs (face_corner L))) = Suc (length (vertexIndices (f_bufs L)))"
  by (simp add: face_corner_def Let_def split: prod.splits)

lemma process_line_corners:
  "length (vertexIndices (process_line u l B)) =
     length (vertexIndices B) + (if is_f_line l then 3 else 0)"
proof (cases "get_string (istringstream_of l) []")
  case (Pair tok iss)
  then show ?thesis
    by (simp add: process_line_def is_f_line_def face_corner_pushes_one)
qed

lemma process_lines_corners:
  "length (vertexIndices (process_lines ind k ls B)) =
     length (vertexIndices B) + 3 * length (filter is_f_line ls)"
proof (induction ls arbitrary: k B)
  case Nil
  show ?case by simp
next
  case (Cons l ls)
  show ?case
    by (simp add: Cons.IH process_line_corners)
qed

lemma corners_of_file:
  "length (vertexIndices (process_lines ind 0 (getlines text) no_buffers)) = 3 * faceCount text"
  by (simp add: process_lines_corners faceCount_def no_buffers_def)

lemma flatten_lengths:
  assumes "flatten B i vis ob = Inr ob'"
  shows "length (vertices ob') = length (vertices ob) + length vis
       \<and> length (normals ob') = length (normals ob) + length vis
       \<and> length (indices ob') = length (indices ob) + length vis"
  using assms
proof (induction vis arbitrary: i ob)
  case Nil
  then show ?case by simp
next
  case (Cons v vis)
  from Cons.prems have inside: "unat v < length (temp_vertices B)"
    by (simp split: if_splits)
  with Cons.prems Cons.IH show ?case
    by (fastforce split: if_splits)
qed

text \<open>The second loop ends when every position it reads is there.\<close>

lemma flatten_returns:
  assumes "\<forall>v \<in> set vis. unat v < length (temp_vertices B)"
  shows "\<exists>ob'. flatten B i vis ob = Inr ob'"
  using assms by (induction vis arbitrary: i ob) simp_all

lemma is_f_line_samples:
  "\<not> is_f_line ''v 0 0 0''" "\<not> is_f_line ''v 1 0 0''" "\<not> is_f_line ''v 0 1 0''"
  "is_f_line ''f 1 2 3''"
  by (simp_all add: is_f_line_def stream_defs)

lemma faceCount_triangle_file: "faceCount triangle_file = 1"
  by (simp add: faceCount_def lines_triangle_file is_f_line_samples)

text \<open>
  C3. For every geometry file that can be opened, the face lines leave three entries each
  in \<open>vertexIndices\<close>. When each of these is the index of a position read from the file,
  and there are fewer than \<open>2^32\<close> of them, the load returns. Whenever the load returns,
  the vertices, the normals and the draw indices have the same length, three times the
  number of face lines of the file, a multiple of 3.
\<close>

theorem flattened_lengths:
  assumes "fs p = Some contents"
  shows "(let B = process_lines ind 0 (getlines contents) no_buffers
          in length (vertexIndices B) = 3 * faceCount contents
           \<and> ((\<forall>v \<in> set (vertexIndices B). unat v < length (temp_vertices B))
                 \<and> length (vertexIndices B) < 2 ^ 32
               \<longrightarrow> (\<exists>ob. OBJ_new ind fs p = Inr ob)))
       \<and> (\<forall>ob. OBJ_new ind fs p = Inr ob \<longrightarrow>
             length (vertices ob) = 3 * faceCount contents
           \<and> length (normals ob) = 3 * faceCount contents
           \<and> length (indices ob) = 3 * faceCount contents
           \<and> 3 dvd length (vertices ob))"
proof -
  let ?B = "process_lines ind 0 (getlines contents) no_buffers"
  let ?new = "\<lparr>vertices = [], normals = [], indices = [], position = V3 0 0 0,
               rotation = V3 0 0 0, scale = V3 1 1 1, name = p\<rparr>"
  have gathered: "length (vertexIndices ?B) = 3 * faceCount contents"
    by (rule corners_of_file)
  have returns: "\<exists>ob. OBJ_new ind fs p = Inr ob"
    if "\<forall>v \<in> set (vertexIndices ?B). unat v < length (temp_vertices ?B)"
      and "length (vertexIndices ?B) < 2 ^ 32"
    using flatten_returns [OF that(1), of 0 ?new] that(2) assms
    by (simp add: OBJ_new_def loadOBJ_def Let_def)
  have lengths: "length (vertices ob) = 3 * faceCount contents
           \<and> length (normals ob) = 3 * faceCount contents
           \<and> length (indices ob) = 3 * faceCount contents
           \<and> 3 dvd length (vertices ob)"
    if "OBJ_new ind fs p = Inr ob" for ob
  proof -
    from that assms have "flatten ?B 0 (vertexIndices ?B) ?new = Inr ob"
      by (simp add: OBJ_new_def loadOBJ_def Let_def split: if_splits)
    from flatten_lengths [OF this] show ?thesis
      by (simp add: gathered)
  qed
  from gathered returns lengths show ?thesis
    by (simp add: Let_def)
qed

theorem flattened_lengths_witness:
  "(\<exists>ob. OBJ_new zero_uninit [''t.obj'' \<mapsto> triangle_file] ''t.obj'' = Inr ob)
 \<and> faceCount triangle_file = 1
 \<and> length (vertices sample_object) = 3 * faceCount triangle_file
 \<and> length (normals sample_object) = 3 * faceCount triangle_file
 \<and> length (indices sample_object) = 3 * faceCount triangle_file"
proof -
  have opened: "[''t.obj'' \<mapsto> triangle_file] ''t.obj'' = Some triangle_file"
    by simp
  have loaded: "OBJ_new zero_uninit [''t.obj'' \<mapsto> triangle_file] ''t.obj'' = Inr sample_object"
    by (simp add: load_triangle_file sample_object_def)
  from flattened_lengths [of "[''t.obj'' \<mapsto> triangle_file]" "''t.obj''" triangle_file zero_uninit]
    opened loaded faceCount_triangle_file
  show ?thesis
    by (simp add: Let_def)
qed

section \<open>A file that cannot be opened\<close>

lemma missing_file:
  assumes "fs asset = None"
  shows "load_objects ind fs =
     Inr [\<lparr>vertices = [], normals = [], indices = [], position = V3 (- 1.5) 0 0,
           rotation = V3 0 0 0, scale = V3 1 1 1, name = asset\<rparr>,
          \<lparr>vertices = [], normals = [], indices = [], position = V3 1.5 0 0,
           rotation = V3 0 0 0, scale = V3 1 1 1, name = asset\<rparr>]"
  using assms by (simp add: load_objects_def OBJ_new_def loadOBJ_def)

lemma startup_no_files: "startup ind no_files = Inr (Running unloaded_viewer)"
proof -
  have "no_files asset = None"
    by (simp add: no_files_def)
  with missing_file [of no_files ind] show ?thesis
    by (simp add: startup_def unloaded_viewer_def)
qed

text \<open>
  C2. A path that cannot be opened should make the load fail, so that the object is
  skipped and nothing with an empty mesh stays in the scene. With no file at all,
  \<open>loadOBJ\<close> returns as it does after a good load: \<open>main\<close> goes on with two objects whose
  vertices, normals and indices are empty, and every frame draws both of them with a
  count of 0.
\<close>

theorem unopened_file_is_kept:
  "\<exists>s. startup ind no_files = Inr (Running s)
       \<and> map vertices (objects s) = [[], []]
       \<and> map normals (objects s) = [[], []]
       \<and> map indices (objects s) = [[], []]
       \<and> map dc_count (drawn (render s gl)) = map dc_count (drawn gl) @ [0, 0]"
  by (simp add: startup_no_files)
     (simp add: unloaded_viewer_def render_def draw_def glDrawElements_def Let_def)

section \<open>Selection\<close>

lemma to_int32_small: "- (2 ^ 31) \<le> i \<Longrightarrow> i < 2 ^ 31 \<Longrightarrow> to_int32 i = i"
  by (simp add: to_int32_def)

lemma to_size_t_small: "0 \<le> i \<Longrightarrow> i < 2 ^ 64 \<Longrightarrow> to_size_t i = i"
  by (simp add: to_size_t_def)

lemma tab_objects: "objects (key_callback GLFW_KEY_TAB GLFW_PRESS s) = objects s"
  by (simp add: key_callback_def)

lemma tab_empty: "objects s = [] \<Longrightarrow> key_callback GLFW_KEY_TAB GLFW_PRESS s = s"
  by (simp add: key_callback_def)

lemma tab_advances:
  assumes "objects s \<noteq> []" and "length (objects s) < 2 ^ 31"
    and "0 \<le> selectedObjectIndex s" and "selectedObjectIndex s < int (length (objects s))"
  shows "selectedObjectIndex (key_callback GLFW_KEY_TAB GLFW_PRESS s) =
           (selectedObjectIndex s + 1) mod int (length (objects s))"
proof -
  let ?n = "int (length (objects s))"
  let ?i = "selectedObjectIndex s"
  from assms have n: "0 < ?n" "?n < 2 ^ 31" by simp_all
  with assms have a: "to_int32 (?i + 1) = ?i + 1"
    by (intro to_int32_small) linarith+
  have "(2::int) ^ 31 < 2 ^ 64" by simp
  with assms n have b: "to_size_t (?i + 1) = ?i + 1"
    by (intro to_size_t_small) linarith+
  have "0 \<le> (?i + 1) mod ?n" "(?i + 1) mod ?n < ?n"
    using n by simp_all
  with n have c: "to_int32 ((?i + 1) mod ?n) = (?i + 1) mod ?n"
    by (intro to_int32_small) linarith+
  from assms show ?thesis
    by (simp add: key_callback_def a b c)
qed

lemma tab_iterated:
  assumes "objects s \<noteq> []" and "length (objects s) < 2 ^ 31" and "selectedObjectIndex s = 0"
  shows "objects ((key_callback GLFW_KEY_TAB GLFW_PRESS ^^ k) s) = objects s
       \<and> selectedObjectIndex ((key_callback GLFW_KEY_TAB GLFW_PRESS ^^ k) s)
           = int (k mod length (objects s))"
proof (induction k)
  case 0
  from assms show ?case by simp
next
  case (Suc k)
  let ?t = "(key_callback GLFW_KEY_TAB GLFW_PRESS ^^ k) s"
  let ?n = "length (objects s)"
  from assms have pos: "0 < ?n" by simp
  from Suc have obs: "objects ?t = objects s" and sel: "selectedObjectIndex ?t = int (k mod ?n)"
    by simp_all
  have "selectedObjectIndex (key_callback GLFW_KEY_TAB GLFW_PRESS ?t)
          = (selectedObjectIndex ?t + 1) mod int (length (objects ?t))"
    using assms pos by (intro tab_advances) (simp_all add: obs sel)
  also have "\<dots> = int ((k mod ?n + 1) mod ?n)"
    by (simp add: obs sel zmod_int ac_simps)
  also have "\<dots> = int (Suc k mod ?n)"
    by (simp add: mod_Suc_eq)
  finally show ?case
    by (simp add: tab_objects obs)
qed

text \<open>
  C5. Starting from \<open>selectedObjectIndex = 0\<close>, \<open>k\<close> presses of Tab on \<open>n > 0\<close> objects
  leave \<open>selectedObjectIndex = k mod n\<close>; with no object the presses change nothing.
  \<open>key_callback\<close> is a total function, so no press fails. The count \<open>n\<close> is below
  \<open>2^31\<close>, the range in which \<open>selectedObjectIndex + 1\<close> is an \<open>int\<close>.
\<close>

theorem tab_cycles:
  "(objects s = [] \<longrightarrow> (key_callback GLFW_KEY_TAB GLFW_PRESS ^^ k) s = s)
 \<and> (objects s \<noteq> [] \<and> length (objects s) < 2 ^ 31 \<and> selectedObjectIndex s = 0 \<longrightarrow>
      selectedObjectIndex ((key_callback GLFW_KEY_TAB GLFW_PRESS ^^ k) s)
        = int (k mod length (objects s)))"
proof (intro conjI impI)
  assume "objects s = []"
  then show "(key_callback GLFW_KEY_TAB GLFW_PRESS ^^ k) s = s"
    by (induction k) (simp_all add: tab_empty)
next
  assume "objects s \<noteq> [] \<and> length (objects s) < 2 ^ 31 \<and> selectedObjectIndex s = 0"
  then show "selectedObjectIndex ((key_callback GLFW_KEY_TAB GLFW_PRESS ^^ k) s)
        = int (k mod length (objects s))"
    using tab_iterated [of s k] by simp
qed


theorem tab_cycles_witness:
  "(key_callback GLFW_KEY_TAB GLFW_PRESS ^^ 5) empty_viewer = empty_viewer
 \<and> selectedObjectIndex ((key_callback GLFW_KEY_TAB GLFW_PRESS ^^ 5) sample_viewer) = 1"
  using tab_cycles [of empty_viewer 5] tab_cycles [of sample_viewer 5]
  by (simp add: empty_viewer_def sample_viewer_def flip: numeral_2_eq_2)

section \<open>Fill mode of the draw calls\<close>

lemma draw_polygonMode: "polygonMode (draw ob sel wire gl) = GL_FILL"
  by (simp add: draw_def glDrawElements_def Let_def)

lemma draw_drawn:
  "drawn (draw ob sel wire gl) =
     drawn gl @ [\<lparr>dc_model = model_matrix ob, dc_selected = (if sel then 1 else 0),
                  dc_mode = (if sel \<and> wire then GL_LINE else GL_FILL),
                  dc_count = length (indices ob)\<rparr>]"
  by (simp add: draw_def glDrawElements_def Let_def)

lemma draw_from_drawn:
  "\<exists>cs. drawn (draw_from i obs sel wire gl) = drawn gl @ cs \<and> length cs = length obs
      \<and> (\<forall>j < length obs.
            cs ! j = \<lparr>dc_model = model_matrix (obs ! j),
                      dc_selected = (if int (i + j) = to_size_t sel then 1 else 0),
                      dc_mode = (if int (i + j) = to_size_t sel \<and> wire
                                 then GL_LINE else GL_FILL),
                      dc_count = length (indices (obs ! j))\<rparr>)"
proof (induction obs arbitrary: i gl)
  case Nil
  show ?case by simp
next
  case (Cons ob obs)
  let ?gl = "draw ob (int i = to_size_t sel) wire gl"
  let ?c = "\<lparr>dc_model = model_matrix ob,
             dc_selected = (if int i = to_size_t sel then 1 else 0),
             dc_mode = (if int i = to_size_t sel \<and> wire then GL_LINE else GL_FILL),
             dc_count = length (indices ob)\<rparr>"
  from Cons.IH [of "Suc i" ?gl] obtain cs where
    cs: "drawn (draw_from (Suc i) obs sel wire ?gl) = drawn ?gl @ cs" "length cs = length obs"
      "\<forall>j < length obs.
            cs ! j = \<lparr>dc_model = model_matrix (obs ! j),
                      dc_selected = (if int (Suc i + j) = to_size_t sel then 1 else 0),
                      dc_mode = (if int (Suc i + j) = to_size_t sel \<and> wire
                                 then GL_LINE else GL_FILL),
                      dc_count = length (indices (obs ! j))\<rparr>"
    by blast
  have "drawn (draw_from i (ob # obs) sel wire gl) = drawn gl @ (?c # cs)"
    by (simp add: cs draw_drawn)
  moreover have "length (?c # cs) = length (ob # obs)"
    by (simp add: cs)
  moreover have "\<forall>j < length (ob # obs).
            (?c # cs) ! j = \<lparr>dc_model = model_matrix ((ob # obs) ! j),
                      dc_selected = (if int (i + j) = to_size_t sel then 1 else 0),
                      dc_mode = (if int (i + j) = to_size_t sel \<and> wire
                                 then GL_LINE else GL_FILL),
                      dc_count = length (indices ((ob # obs) ! j))\<rparr>"
  proof (intro allI impI)
    fix j assume "j < length (ob # obs)"
    then show "(?c # cs) ! j = \<lparr>dc_model = model_matrix ((ob # obs) ! j),
                      dc_selected = (if int (i + j) = to_size_t sel then 1 else 0),
                      dc_mode = (if int (i + j) = to_size_t sel \<and> wire
                                 then GL_LINE else GL_FILL),
                      dc_count = length (indices ((ob # obs) ! j))\<rparr>"
      using cs(3) by (cases j) simp_all
  qed
  ultimately show ?case by blast
qed

lemma draw_from_polygonMode:
  "polygonMode (draw_from i obs sel wire gl) = (if obs = [] then polygonMode gl else GL_FILL)"
  by (induction obs arbitrary: i gl) (simp_all add: draw_polygonMode)

text \<open>
  C8. A draw call is issued in line mode exactly when \<open>draw\<close> was called for a selected
  object with the wireframe flag set, and \<open>draw\<close> always leaves the polygon mode at fill.
  In a frame, the call for the object at position \<open>j\<close> is in line mode exactly when \<open>j\<close>
  is the selected index and \<open>wireframeMode\<close> is set: no other object of the frame is drawn
  in line mode.
\<close>

theorem wireframe_only_selected:
  "(dc_mode (last (drawn (draw ob sel wire gl))) = GL_LINE \<longleftrightarrow> sel \<and> wire)
 \<and> polygonMode (draw ob sel wire gl) = GL_FILL
 \<and> length (drawn (render s gl)) = length (drawn gl) + length (objects s)
 \<and> (\<forall>j < length (objects s).
       (dc_mode (drawn (render s gl) ! (length (drawn gl) + j)) = GL_LINE
          \<longleftrightarrow> int j = to_size_t (selectedObjectIndex s) \<and> wireframeMode s))"
proof -
  from draw_from_drawn [of 0 "objects s" "selectedObjectIndex s" "wireframeMode s" gl]
  obtain cs where cs: "drawn (render s gl) = drawn gl @ cs" "length cs = length (objects s)"
    "\<forall>j < length (objects s).
        dc_mode (cs ! j) = (if int j = to_size_t (selectedObjectIndex s) \<and> wireframeMode s
                            then GL_LINE else GL_FILL)"
    by (auto simp add: render_def)
  have "dc_mode (last (drawn (draw ob sel wire gl))) = GL_LINE \<longleftrightarrow> sel \<and> wire"
    by (simp add: draw_drawn)
  moreover have "polygonMode (draw ob sel wire gl) = GL_FILL"
    by (rule draw_polygonMode)
  moreover have "length (drawn (render s gl)) = length (drawn gl) + length (objects s)"
    by (simp add: cs)
  moreover have "\<forall>j < length (objects s).
       (dc_mode (drawn (render s gl) ! (length (drawn gl) + j)) = GL_LINE
          \<longleftrightarrow> int j = to_size_t (selectedObjectIndex s) \<and> wireframeMode s)"
    using cs(3) by (simp add: cs(1))
  ultimately show ?thesis by blast
qed

theorem wireframe_only_selected_witness:
  "dc_mode (drawn (render (sample_viewer\<lparr>wireframeMode := True\<rparr>) gl_initial) ! 0) = GL_LINE
 \<and> dc_mode (drawn (render (sample_viewer\<lparr>wireframeMode := True\<rparr>) gl_initial) ! 1) \<noteq> GL_LINE"
  using wireframe_only_selected
          [of sample_object True True gl_initial "sample_viewer\<lparr>wireframeMode := True\<rparr>",
           THEN conjunct2, THEN conjunct2, THEN conjunct2, rule_format, of 0]
        wireframe_only_selected
          [of sample_object True True gl_initial "sample_viewer\<lparr>wireframeMode := True\<rparr>",
           THEN conjunct2, THEN conjunct2, THEN conjunct2, rule_format, of 1]
  by (simp add: sample_viewer_def gl_initial_def to_size_t_def)

section \<open>What a frame changes\<close>

lemma scale_branch_fields:
  "scale_branch pressed dt ob = ob\<lparr>scale := scale (scale_branch pressed dt ob)\<rparr>"
  by (simp add: scale_branch_def Let_def)

lemma rotation_branch_fields:
  "rotation_branch pressed dt ob = ob\<lparr>rotation := rotation (rotation_branch pressed dt ob)\<rparr>"
  by (simp add: rotation_branch_def Let_def)

lemma translation_branch_fields:
  "translation_branch pressed dt ob = ob\<lparr>position := position (translation_branch pressed dt ob)\<rparr>"
  by (simp add: translation_branch_def Let_def)

lemma processInput_globals:
  "selectedObjectIndex (processInput pressed dt s) = selectedObjectIndex s
 \<and> transformMode (processInput pressed dt s) = transformMode s
 \<and> transformMode2 (processInput pressed dt s) = transformMode2 s
 \<and> wireframeMode (processInput pressed dt s) = wireframeMode s
 \<and> length (objects (processInput pressed dt s)) = length (objects s)"
  by (simp add: processInput_def Let_def)

lemma processInput_skips:
  "objects s = [] \<or> int (length (objects s)) \<le> to_size_t (selectedObjectIndex s)
   \<Longrightarrow> objects (processInput pressed dt s) = objects s"
  by (auto simp add: processInput_def Let_def)

lemma processInput_others:
  "j \<noteq> nat (to_size_t (selectedObjectIndex s))
   \<Longrightarrow> objects (processInput pressed dt s) ! j = objects s ! j"
  by (simp add: processInput_def Let_def)

lemma processInput_selected:
  assumes "nat (to_size_t (selectedObjectIndex s)) < length (objects s)"
  shows "objects (processInput pressed dt s) ! nat (to_size_t (selectedObjectIndex s)) =
     (if transformMode2 s
      then scale_branch pressed dt (objects s ! nat (to_size_t (selectedObjectIndex s)))
      else if transformMode s
      then rotation_branch pressed dt (objects s ! nat (to_size_t (selectedObjectIndex s)))
      else translation_branch pressed dt (objects s ! nat (to_size_t (selectedObjectIndex s))))"
proof -
  from assms have "objects s \<noteq> []" by auto
  moreover from assms have "\<not> int (length (objects s)) \<le> to_size_t (selectedObjectIndex s)"
    by linarith
  ultimately show ?thesis
    using assms by (simp add: processInput_def Let_def)
qed

text \<open>
  C10. One call of \<open>processInput\<close> keeps the selected index, the mode flags and the number
  of objects. It changes no object when there is none or when the selected index is not a
  position of the list. Otherwise every object but the selected one is as before, and of
  the selected one only \<open>scale\<close> may differ in scale mode, only \<open>rotation\<close> in rotation
  mode and only \<open>position\<close> in translation mode.
\<close>

theorem frame_effect:
  "selectedObjectIndex (processInput pressed dt s) = selectedObjectIndex s
 \<and> transformMode (processInput pressed dt s) = transformMode s
 \<and> transformMode2 (processInput pressed dt s) = transformMode2 s
 \<and> wireframeMode (processInput pressed dt s) = wireframeMode s
 \<and> length (objects (processInput pressed dt s)) = length (objects s)
 \<and> (objects s = [] \<or> int (length (objects s)) \<le> to_size_t (selectedObjectIndex s)
      \<longrightarrow> objects (processInput pressed dt s) = objects s)
 \<and> (\<forall>j. j \<noteq> nat (to_size_t (selectedObjectIndex s))
      \<longrightarrow> objects (processInput pressed dt s) ! j = objects s ! j)
 \<and> (nat (to_size_t (selectedObjectIndex s)) < length (objects s) \<longrightarrow>
      (let old = objects s ! nat (to_size_t (selectedObjectIndex s));
           new = objects (processInput pressed dt s) ! nat (to_size_t (selectedObjectIndex s))
       in (transformMode2 s \<longrightarrow> new = old\<lparr>scale := scale new\<rparr>)
        \<and> (\<not> transformMode2 s \<and> transformMode s \<longrightarrow> new = old\<lparr>rotation := rotation new\<rparr>)
        \<and> (\<not> transformMode2 s \<and> \<not> transformMode s \<longrightarrow> new = old\<lparr>position := position new\<rparr>)))"
proof -
  let ?i = "nat (to_size_t (selectedObjectIndex s))"
  have sel: "?i < length (objects s) \<longrightarrow>
      (let old = objects s ! ?i; new = objects (processInput pressed dt s) ! ?i
       in (transformMode2 s \<longrightarrow> new = old\<lparr>scale := scale new\<rparr>)
        \<and> (\<not> transformMode2 s \<and> transformMode s \<longrightarrow> new = old\<lparr>rotation := rotation new\<rparr>)
        \<and> (\<not> transformMode2 s \<and> \<not> transformMode s \<longrightarrow> new = old\<lparr>position := position new\<rparr>))"
  proof
    assume "?i < length (objects s)"
    from processInput_selected [OF this, of pressed dt]
    show "let old = objects s ! ?i; new = objects (processInput pressed dt s) ! ?i
       in (transformMode2 s \<longrightarrow> new = old\<lparr>scale := scale new\<rparr>)
        \<and> (\<not> transformMode2 s \<and> transformMode s \<longrightarrow> new = old\<lparr>rotation := rotation new\<rparr>)
        \<and> (\<not> transformMode2 s \<and> \<not> transformMode s \<longrightarrow> new = old\<lparr>position := position new\<rparr>)"
      using scale_branch_fields [of pressed dt "objects s ! ?i"]
        rotation_branch_fields [of pressed dt "objects s ! ?i"]
        translation_branch_fields [of pressed dt "objects s ! ?i"]
      by (simp add: Let_def)
  qed
  from processInput_globals [of pressed dt s] processInput_skips [of s pressed dt]
    processInput_others [of _ s pressed dt] sel
  show ?thesis by blast
qed

theorem frame_effect_witness:
  "objects (processInput only_W 1 sample_viewer) ! 1 = objects sample_viewer ! 1
 \<and> objects (processInput only_W 1 sample_viewer) ! 0
     = (objects sample_viewer ! 0)\<lparr>position := position (objects (processInput only_W 1 sample_viewer) ! 0)\<rparr>
 \<and> objects (processInput only_W 1 empty_viewer) = objects empty_viewer"
  using frame_effect [of only_W 1 sample_viewer] frame_effect [of only_W 1 empty_viewer]
  by (simp add: sample_viewer_def empty_viewer_def to_size_t_def Let_def)

section \<open>The model matrix\<close>

text \<open>Each call of GLM multiplies the matrix built so far by one matrix, on the right.\<close>

lemma mat4_columns:
  obtains a0 a1 a2 a3 b0 b1 b2 b3 c0 c1 c2 c3 d0 d1 d2 d3 where
    "m = Mat4 (Vec4 a0 a1 a2 a3) (Vec4 b0 b1 b2 b3) (Vec4 c0 c1 c2 c3) (Vec4 d0 d1 d2 d3)"
proof (cases m)
  case (Mat4 p q r s)
  then show ?thesis
    by (cases p, cases q, cases r, cases s) (simp add: that)
qed

lemma mat_mul_identity_left: "mat_mul mat4_1 m = m"
  by (rule mat4_columns [of m]) (simp add: mat4_1_def)

lemma translate_is_product: "glm_translate m v = mat_mul m (Translate v)"
  by (rule mat4_columns [of m]) (simp add: Translate_def)

lemma scale_is_product: "glm_scale m v = mat_mul m (Scale v)"
  by (rule mat4_columns [of m]) (simp add: Scale_def)

lemma normalize_axes:
  "glm_normalize (V3 1 0 0) = V3 1 0 0" "glm_normalize (V3 0 1 0) = V3 0 1 0"
  "glm_normalize (V3 0 0 1) = V3 0 0 1"
  by (simp_all add: glm_normalize_def V3_def)

lemma rotate_x_is_product:
  "glm_rotate m (glm_radians deg) (V3 1 0 0) = mat_mul m (RotateX deg)"
  by (rule mat4_columns [of m])
     (simp add: normalize_axes RotateX_def glm_radians_def Let_def, simp add: V3_def)

lemma rotate_y_is_product:
  "glm_rotate m (glm_radians deg) (V3 0 1 0) = mat_mul m (RotateY deg)"
  by (rule mat4_columns [of m])
     (simp add: normalize_axes RotateY_def glm_radians_def Let_def, simp add: V3_def)

lemma rotate_z_is_product:
  "glm_rotate m (glm_radians deg) (V3 0 0 1) = mat_mul m (RotateZ deg)"
  by (rule mat4_columns [of m])
     (simp add: normalize_axes RotateZ_def glm_radians_def Let_def, simp add: V3_def)

text \<open>
  C9. The model matrix that \<open>draw\<close> hands to the shader and draws with is
  Translate(position) \<open>\<cdot>\<close> RotateX(rotation.x) \<open>\<cdot>\<close> RotateY(rotation.y) \<open>\<cdot>\<close>
  RotateZ(rotation.z) \<open>\<cdot>\<close> Scale(scale), multiplied in that order.
\<close>

theorem model_matrix_order:
  "dc_model (last (drawn (draw ob sel wire gl))) = model_matrix ob
 \<and> model_matrix ob =
     mat_mul (mat_mul (mat_mul (mat_mul (Translate (position ob)) (RotateX (vx (rotation ob))))
                                (RotateY (vy (rotation ob))))
                      (RotateZ (vz (rotation ob))))
             (Scale (scale ob))"
  by (simp add: draw_drawn model_matrix_def translate_is_product scale_is_product
        rotate_x_is_product rotate_y_is_product rotate_z_is_product mat_mul_identity_left)

section \<open>Rotation stays wrapped\<close>

text \<open>\<open>fmod\<close> by a positive number: size and sign of the result.\<close>

lemma fmod_nonneg_quotient:
  assumes "0 < b" and "0 \<le> a"
  shows "0 \<le> fmod a b" and "fmod a b < b"
proof -
  from assms have q: "0 \<le> a / b" by simp
  have "b * of_int \<lfloor>a / b\<rfloor> \<le> b * (a / b)"
    using assms by (intro mult_left_mono) simp_all
  with assms have "b * of_int \<lfloor>a / b\<rfloor> \<le> a"
    by simp
  with q show "0 \<le> fmod a b" by (simp add: fmod_def)
  have "a / b < of_int \<lfloor>a / b\<rfloor> + 1" by linarith
  with assms have "b * (a / b) < b * (of_int \<lfloor>a / b\<rfloor> + 1)"
    by (intro mult_strict_left_mono) simp_all
  with assms have "a < b * (of_int \<lfloor>a / b\<rfloor> + 1)"
    by simp
  with q show "fmod a b < b" by (simp add: fmod_def algebra_simps)
qed

lemma fmod_negative_quotient:
  assumes "0 < b" and "a < 0"
  shows "fmod a b \<le> 0" and "- b < fmod a b"
proof -
  from assms have "a / b < 0" by (rule_tac divide_neg_pos)
  then have q: "\<not> 0 \<le> a / b" by simp
  have "b * (a / b) \<le> b * of_int \<lceil>a / b\<rceil>"
    using assms by (intro mult_left_mono) simp_all
  with assms have "a \<le> b * of_int \<lceil>a / b\<rceil>"
    by simp
  with q show "fmod a b \<le> 0" by (simp add: fmod_def)
  have "of_int \<lceil>a / b\<rceil> < a / b + 1" by linarith
  with assms have "b * of_int \<lceil>a / b\<rceil> < b * (a / b + 1)"
    by (intro mult_strict_left_mono) simp_all
  with assms have "b * of_int \<lceil>a / b\<rceil> < a + b"
    by (simp add: algebra_simps)
  with q show "- b < fmod a b" by (simp add: fmod_def)
qed

lemma fmod_abs_less: "0 < b \<Longrightarrow> \<bar>fmod a b\<bar> < b"
  using fmod_nonneg_quotient [of b a] fmod_negative_quotient [of b a]
  by (cases "0 \<le> a") auto

lemma fmod_keeps_sign:
  assumes "0 < b"
  shows "(0 \<le> a \<longrightarrow> 0 \<le> fmod a b) \<and> (a \<le> 0 \<longrightarrow> fmod a b \<le> 0)"
proof -
  have "fmod 0 b = 0" by (simp add: fmod_def)
  with assms show ?thesis
    using fmod_nonneg_quotient(1) [of b a] fmod_negative_quotient(1) [of b a]
    by (cases "a = 0") auto
qed

lemma fmod_is_wrap: "\<exists>k::int. fmod a b = a - b * of_int k"
  by (auto simp add: fmod_def)

lemma rotation_branch_wrapped: "wrapped (rotation (rotation_branch pressed dt ob))"
  by (simp add: rotation_branch_def wrapped_def V3_def Let_def fmod_abs_less)

lemma rotation_of_other_branches:
  "rotation (scale_branch pressed dt ob) = rotation ob"
  "rotation (translation_branch pressed dt ob) = rotation ob"
  by (simp_all add: scale_branch_def translation_branch_def Let_def)

lemma list_all_update:
  "list_all P xs \<Longrightarrow> P v \<Longrightarrow> list_all P (xs[i := v])"
  by (induction xs arbitrary: i) (auto split: nat.splits)

lemma processInput_wrapped:
  assumes "list_all (\<lambda>ob. wrapped (rotation ob)) (objects s)"
  shows "list_all (\<lambda>ob. wrapped (rotation ob)) (objects (processInput pressed dt s))"
proof (cases "objects s = [] \<or> int (length (objects s)) \<le> to_size_t (selectedObjectIndex s)")
  case True
  with assms show ?thesis
    by (auto simp add: processInput_def Let_def)
next
  case False
  let ?i = "nat (to_size_t (selectedObjectIndex s))"
  have "0 \<le> to_size_t (selectedObjectIndex s)"
    by (simp add: to_size_t_def)
  with False have "?i < length (objects s)" by linarith
  with assms have "wrapped (rotation (objects s ! ?i))"
    by (simp add: list_all_length)
  with assms False show ?thesis
    by (auto simp add: processInput_def Let_def rotation_branch_wrapped
          rotation_of_other_branches intro!: list_all_update)
qed

lemma key_callback_objects: "objects (key_callback k act s) = objects s"
  by (cases k) (simp_all add: key_callback_def)

lemma step_wrapped:
  "list_all (\<lambda>ob. wrapped (rotation ob)) (objects s)
   \<Longrightarrow> list_all (\<lambda>ob. wrapped (rotation ob)) (objects (step s e))"
  by (cases e) (simp_all add: processInput_wrapped key_callback_objects)

lemma run_wrapped:
  "list_all (\<lambda>ob. wrapped (rotation ob)) (objects s)
   \<Longrightarrow> list_all (\<lambda>ob. wrapped (rotation ob)) (objects (run evs s))"
  unfolding run_def
  by (induction evs arbitrary: s) (simp_all add: step_wrapped)

text \<open>Every object comes out of the constructor with rotation 0 and scale 1.\<close>

lemma flatten_keeps_transform:
  "flatten B i vis ob = Inr ob'
   \<Longrightarrow> position ob' = position ob \<and> rotation ob' = rotation ob \<and> scale ob' = scale ob"
  by (induction vis arbitrary: i ob) (auto split: if_splits)

lemma OBJ_new_transform:
  assumes "OBJ_new ind fs p = Inr ob"
  shows "rotation ob = V3 0 0 0 \<and> scale ob = V3 1 1 1"
proof (cases "fs p")
  case None
  with assms show ?thesis
    by (auto simp add: OBJ_new_def loadOBJ_def)
next
  case (Some contents)
  with assms show ?thesis
    by (auto simp add: OBJ_new_def loadOBJ_def Let_def split: if_splits
          dest!: flatten_keeps_transform)
qed

lemma startup_transforms:
  assumes "startup ind fs = Inr (Running s)"
  shows "list_all (\<lambda>ob. rotation ob = V3 0 0 0 \<and> scale ob = V3 1 1 1) (objects s)"
  using assms
  by (auto simp add: startup_def load_objects_def split: sum.splits if_splits
        dest!: OBJ_new_transform)

text \<open>
  C6. Whatever frames and key presses follow, in whatever mode, every component of every
  object's rotation stays strictly between -360 and 360: from any state in which it is
  so, and so from the state \<open>main\<close> starts with. The rotation branch stores \<open>fmod\<close> of
  each component by 360, which has the sign of the component and differs from it by a
  multiple of 360: a wrap, not a clamp.
\<close>

theorem rotation_stays_wrapped:
  "(list_all (\<lambda>ob. wrapped (rotation ob)) (objects s)
      \<longrightarrow> list_all (\<lambda>ob. wrapped (rotation ob)) (objects (run evs s)))
 \<and> (startup ind fs = Inr (Running s)
      \<longrightarrow> list_all (\<lambda>ob. wrapped (rotation ob)) (objects (run evs s)))
 \<and> rotation (rotation_branch pressed dt ob) =
      (let v = rotation_keys pressed (rotationSpeed * dt) (rotation ob)
       in V3 (fmod (vx v) 360) (fmod (vy v) 360) (fmod (vz v) 360))
 \<and> (0 \<le> a \<longrightarrow> 0 \<le> fmod a 360) \<and> (a \<le> 0 \<longrightarrow> fmod a 360 \<le> 0)
 \<and> (\<exists>k::int. fmod a 360 = a - 360 * of_int k)"
proof -
  have "startup ind fs = Inr (Running s)
      \<longrightarrow> list_all (\<lambda>ob. wrapped (rotation ob)) (objects (run evs s))"
  proof
    assume "startup ind fs = Inr (Running s)"
    from startup_transforms [OF this]
    have "list_all (\<lambda>ob. wrapped (rotation ob)) (objects s)"
      by (rule list.pred_mono_strong) (simp add: wrapped_def V3_def)
    then show "list_all (\<lambda>ob. wrapped (rotation ob)) (objects (run evs s))"
      by (rule run_wrapped)
  qed
  moreover have "rotation (rotation_branch pressed dt ob) =
      (let v = rotation_keys pressed (rotationSpeed * dt) (rotation ob)
       in V3 (fmod (vx v) 360) (fmod (vy v) 360) (fmod (vz v) 360))"
    by (simp add: rotation_branch_def Let_def)
  ultimately show ?thesis
    using run_wrapped [of s evs] fmod_keeps_sign [of 360 a] fmod_is_wrap [of a 360]
    by simp
qed


theorem rotation_stays_wrapped_witness:
  "list_all (\<lambda>ob. wrapped (rotation ob))
     (objects (run [Key GLFW_KEY_1 GLFW_PRESS, Frame only_W 8] sample_viewer))
 \<and> list_all (\<lambda>ob. wrapped (rotation ob))
     (objects (run [Key GLFW_KEY_1 GLFW_PRESS, Frame only_W 8] unloaded_viewer))
 \<and> 0 \<le> fmod 400 360 \<and> fmod (- 400) 360 \<le> 0"
  using rotation_stays_wrapped [of sample_viewer "[Key GLFW_KEY_1 GLFW_PRESS, Frame only_W 8]"
              zero_uninits no_files only_W 8 sample_object 400]
        rotation_stays_wrapped [of unloaded_viewer "[Key GLFW_KEY_1 GLFW_PRESS, Frame only_W 8]"
              zero_uninits no_files only_W 8 sample_object "- 400"]
        startup_no_files [of zero_uninits]
  by (simp add: sample_viewer_def sample_object_def wrapped_def V3_def)

section \<open>Scale\<close>

lemma scale_branch_floored: "floored (scale (scale_branch pressed dt ob))"
  by (simp add: scale_branch_def floored_def glm_max_def V3_def Let_def)

lemma scale_of_other_branches:
  "scale (rotation_branch pressed dt ob) = scale ob"
  "scale (translation_branch pressed dt ob) = scale ob"
  by (simp_all add: rotation_branch_def translation_branch_def Let_def)

lemma processInput_floored:
  assumes "list_all (\<lambda>ob. floored (scale ob)) (objects s)"
  shows "list_all (\<lambda>ob. floored (scale ob)) (objects (processInput pressed dt s))"
proof (cases "objects s = [] \<or> int (length (objects s)) \<le> to_size_t (selectedObjectIndex s)")
  case True
  with assms show ?thesis
    by (auto simp add: processInput_def Let_def)
next
  case False
  let ?i = "nat (to_size_t (selectedObjectIndex s))"
  have "0 \<le> to_size_t (selectedObjectIndex s)"
    by (simp add: to_size_t_def)
  with False have "?i < length (objects s)" by linarith
  with assms have "floored (scale (objects s ! ?i))"
    by (simp add: list_all_length)
  with assms False show ?thesis
    by (auto simp add: processInput_def Let_def scale_branch_floored
          scale_of_other_branches intro!: list_all_update)
qed

lemma run_floored:
  "list_all (\<lambda>ob. floored (scale ob)) (objects s)
   \<Longrightarrow> list_all (\<lambda>ob. floored (scale ob)) (objects (run evs s))"
  unfolding run_def
proof (induction evs arbitrary: s)
  case Nil
  then show ?case by simp
next
  case (Cons e evs)
  from Cons.prems have "list_all (\<lambda>ob. floored (scale ob)) (objects (step s e))"
    by (cases e) (simp_all add: processInput_floored key_callback_objects)
  then show ?case
    by (simp add: Cons.IH)
qed

lemma scale_keys_x:
  "pressed GLFW_KEY_D \<Longrightarrow> \<not> pressed GLFW_KEY_A
   \<Longrightarrow> vx (scale_keys pressed c v) = vx v + c"
  by (simp add: scale_keys_def Let_def)

lemma scale_branch_x:
  assumes "pressed GLFW_KEY_D" and "\<not> pressed GLFW_KEY_A"
  shows "vx (scale (scale_branch pressed dt ob)) = max (vx (scale ob) + scaleSpeed * dt) 0.1"
  using assms by (simp add: scale_branch_def glm_max_def V3_def Let_def scale_keys_x)

lemma held_D_accumulates:
  assumes "pressed GLFW_KEY_D" and "\<not> pressed GLFW_KEY_A"
  shows "transformMode2 s \<Longrightarrow> nat (to_size_t (selectedObjectIndex s)) < length (objects s)
    \<Longrightarrow> \<forall>dt \<in> set dts. 0 \<le> dt
    \<Longrightarrow> 0.1 \<le> vx (scale (objects s ! nat (to_size_t (selectedObjectIndex s))))
    \<Longrightarrow> vx (scale (objects (run (map (Frame pressed) dts) s)
                        ! nat (to_size_t (selectedObjectIndex s))))
        = vx (scale (objects s ! nat (to_size_t (selectedObjectIndex s))))
          + scaleSpeed * sum_list dts"
proof (induction dts arbitrary: s)
  case Nil
  show ?case by (simp add: run_def)
next
  case (Cons dt dts)
  let ?i = "nat (to_size_t (selectedObjectIndex s))"
  let ?s = "processInput pressed dt s"
  from Cons.prems have dt: "0 \<le> dt" by simp
  have globals: "selectedObjectIndex ?s = selectedObjectIndex s" "transformMode2 ?s = transformMode2 s"
    "length (objects ?s) = length (objects s)"
    using processInput_globals [of pressed dt s] by simp_all
  from processInput_selected [OF Cons.prems(2), of pressed dt] Cons.prems(1)
  have "objects ?s ! ?i = scale_branch pressed dt (objects s ! ?i)"
    by simp
  then have "vx (scale (objects ?s ! ?i)) = max (vx (scale (objects s ! ?i)) + scaleSpeed * dt) 0.1"
    by (simp add: scale_branch_x [OF assms])
  with Cons.prems(4) dt
  have now: "vx (scale (objects ?s ! ?i)) = vx (scale (objects s ! ?i)) + scaleSpeed * dt"
    by (simp add: scaleSpeed_def max_def)
  have "vx (scale (objects (run (map (Frame pressed) dts) ?s)
                        ! nat (to_size_t (selectedObjectIndex ?s))))
        = vx (scale (objects ?s ! nat (to_size_t (selectedObjectIndex ?s))))
          + scaleSpeed * sum_list dts"
    using Cons.prems dt now
    by (intro Cons.IH) (simp_all add: globals scaleSpeed_def)
  then show ?case
    by (simp add: run_def globals now algebra_simps)
qed

text \<open>
  C7. In scale mode with D held and A not, one frame of \<open>dt\<close> seconds takes \<open>scale.x\<close> of
  the selected object to the larger of \<open>scale.x + scaleSpeed * dt\<close> and 0.1. Over frames
  whose times are not negative and sum to \<open>t\<close>, starting at 0.1 or more, that is
  \<open>scale.x + scaleSpeed * t\<close>. After a pass through the scale branch no component of the
  scale is below 0.1, and no sequence of frames and key presses takes a component of any
  object's scale below 0.1 once none is.
\<close>

theorem scale_accumulates:
  "(pressed GLFW_KEY_D \<and> \<not> pressed GLFW_KEY_A \<longrightarrow>
      vx (scale (scale_branch pressed dt ob)) = max (vx (scale ob) + scaleSpeed * dt) 0.1)
 \<and> (pressed GLFW_KEY_D \<and> \<not> pressed GLFW_KEY_A \<and> transformMode2 s
      \<and> nat (to_size_t (selectedObjectIndex s)) < length (objects s)
      \<and> (\<forall>dt \<in> set dts. 0 \<le> dt)
      \<and> 0.1 \<le> vx (scale (objects s ! nat (to_size_t (selectedObjectIndex s)))) \<longrightarrow>
      vx (scale (objects (run (map (Frame pressed) dts) s)
                   ! nat (to_size_t (selectedObjectIndex s))))
        = vx (scale (objects s ! nat (to_size_t (selectedObjectIndex s))))
          + scaleSpeed * sum_list dts)
 \<and> floored (scale (scale_branch pressed dt ob))
 \<and> (list_all (\<lambda>ob. floored (scale ob)) (objects s)
      \<longrightarrow> list_all (\<lambda>ob. floored (scale ob)) (objects (run evs s)))"
  using scale_branch_x [of pressed dt ob] held_D_accumulates [of pressed s dts]
    scale_branch_floored [of pressed dt ob] run_floored [of s evs]
  by blast

theorem scale_accumulates_witness:
  "vx (scale (objects (run (map (Frame only_D) [0.5, 0.25])
                         (sample_viewer\<lparr>transformMode2 := True\<rparr>)) ! 0)) = 1.75
 \<and> vx (scale (scale_branch only_D (- 5) sample_object)) = 0.1
 \<and> list_all (\<lambda>ob. floored (scale ob))
      (objects (run [Key GLFW_KEY_3 GLFW_PRESS, Frame only_D (- 5)] sample_viewer))"
  using scale_accumulates [of only_D "- 5" sample_object "sample_viewer\<lparr>transformMode2 := True\<rparr>"
              "[0.5, 0.25]" "[Key GLFW_KEY_3 GLFW_PRESS, Frame only_D (- 5)]"]
        scale_accumulates [of only_D "- 5" sample_object sample_viewer
              "[0.5, 0.25]" "[Key GLFW_KEY_3 GLFW_PRESS, Frame only_D (- 5)]"]
  by (simp add: sample_viewer_def sample_object_def only_D_def to_size_t_def scaleSpeed_def
        floored_def V3_def)

end
